theory Spec2Isabelle
  imports Complex_Main "HOL-Library.AList"
begin

section \<open>Python values the code handles\<close>

text \<open>
  The module \<^verbatim>\<open>sympy_calls.py\<close> is a thin layer over the computer-algebra
  library sympy: it builds the table of recognised names, merges it with the declared
  variables, and sequences the library's calls inside one \<^verbatim>\<open>try\<close> block whose
  handlers choose the error category. The embedding keeps this split. Every library call
  is a field of the record \<open>sympy\<close> below and returns either the exception it raises
  or its result; the functions of the module are defined over an arbitrary such record.

  An exception is its class together with its text (\<^verbatim>\<open>str(e)\<close>). Only the classes
  the handlers can tell apart matter: \<open>SympifyError\<close> is a subclass of
  \<open>ValueError\<close>, every other class listed is a subclass of \<^verbatim>\<open>Exception\<close>
  only. \<open>OtherException\<close> stands for any further class that is not a
  \<open>ValueError\<close>.
\<close>

datatype exc_class =
    SympifyError | ValueError | TypeError | IndexError | KeyError
  | SyntaxError | TokenError | NotImplementedError | OtherException

type_synonym exn = "exc_class \<times> string"

fun issubclass :: "exc_class \<Rightarrow> exc_class \<Rightarrow> bool" where
  "issubclass SympifyError ValueError = True"
| "issubclass c d = (c = d)"

definition isinstance :: "exn \<Rightarrow> exc_class \<Rightarrow> bool" where
  "isinstance e c = issubclass (fst e) c"

text \<open>Sequencing of calls that may raise: the first exception ends the block.\<close>

definition seq :: "exn + 'a \<Rightarrow> ('a \<Rightarrow> exn + 'b) \<Rightarrow> exn + 'b" where
  "seq m f = (case m of Inl e \<Rightarrow> Inl e | Inr x \<Rightarrow> f x)"

text \<open>
  A Python \<^verbatim>\<open>dict\<close> with string keys: an association list with one entry per key,
  in insertion order. \<open>AList.update\<close> is the assignment \<^verbatim>\<open>d[k] = v\<close>: it
  replaces the entry of an existing key in place and appends a new key at the end.
  A Python \<^verbatim>\<open>float\<close> is modelled by the real number it denotes.
\<close>

type_synonym 'a dict = "(string \<times> 'a) list"

text \<open>\<^verbatim>\<open>{**a, **b}\<close>: the entries of \<open>a\<close>, then each entry of \<open>b\<close> assigned in turn.\<close>

definition dict_merge :: "'a dict \<Rightarrow> 'a dict \<Rightarrow> 'a dict" where
  "dict_merge a b = fold (\<lambda>(k, v). AList.update k v) b a"

section \<open>The library interface\<close>

text \<open>The attributes of the module \<^verbatim>\<open>sympy\<close> that the function table names.\<close>

datatype sp_attr =
    Sp_sin | Sp_cos | Sp_tan | Sp_cot | Sp_sec | Sp_csc
  | Sp_asin | Sp_acos | Sp_atan | Sp_acot | Sp_asec | Sp_acsc
  | Sp_sinh | Sp_cosh | Sp_tanh | Sp_coth | Sp_sech | Sp_csch
  | Sp_asinh | Sp_acosh | Sp_atanh | Sp_acoth | Sp_asech | Sp_acsch
  | Sp_log | Sp_ln | Sp_exp | Sp_exp_polar | Sp_sqrt
  | Sp_erf | Sp_erfc | Sp_gamma | Sp_beta | Sp_zeta
  | Sp_besselj | Sp_bessely | Sp_besseli | Sp_besselk
  | Sp_sinc | Sp_digamma | Sp_LambertW
  | Sp_Ynm | Sp_assoc_legendre | Sp_hermite | Sp_elliptic_e | Sp_elliptic_k
  | Sp_pi | Sp_E | Sp_I

text \<open>
  What a name of the parser's local dictionary is bound to: an expression object (here
  always a Symbol), an attribute of the library module, or a \<^verbatim>\<open>lambda\<close> of this
  module.
\<close>

datatype 'e pyobj = Expr 'e | Attr sp_attr | Callable "'e list \<Rightarrow> exn + 'e"

record 'e sympy =
  sp_Symbol :: "string \<Rightarrow> 'e"
  sp_Integer :: "int \<Rightarrow> 'e"
  sp_Rational :: "'e \<Rightarrow> 'e \<Rightarrow> exn + 'e"
  sp_call :: "sp_attr \<Rightarrow> 'e list \<Rightarrow> exn + 'e"
  parse_expr :: "string \<Rightarrow> 'e pyobj dict \<Rightarrow> exn + 'e"
  sp_sympify :: "string \<Rightarrow> exn + 'e"
  sp_diff :: "'e \<Rightarrow> 'e \<Rightarrow> exn + 'e"
  sp_im :: "'e \<Rightarrow> exn + 'e"
  sp_re :: "'e \<Rightarrow> exn + 'e"
  expr_subs :: "'e \<Rightarrow> real dict \<Rightarrow> exn + 'e"
  expr_free_symbols :: "'e \<Rightarrow> 'e set"
  expr_evalf :: "'e \<Rightarrow> exn + 'e"
  py_float :: "'e \<Rightarrow> exn + real"
  py_str :: "'e \<Rightarrow> exn + string"
  py_abs :: "'e \<Rightarrow> exn + 'e"
  py_gt :: "'e \<Rightarrow> real \<Rightarrow> exn + bool"
  py_add :: "'e \<Rightarrow> 'e \<Rightarrow> exn + 'e"
  py_mul :: "'e \<Rightarrow> 'e \<Rightarrow> exn + 'e"
  py_pow :: "'e \<Rightarrow> 'e \<Rightarrow> exn + 'e"
  sp_latex :: "'e \<Rightarrow> exn + string"

text \<open>
  \<open>parse_expr\<close> is the library's parser with the transformations the module always
  passes (the standard ones and implicit multiplication and application);
  \<open>expr_subs\<close>, \<open>expr_free_symbols\<close> and \<open>expr_evalf\<close> are the methods of an
  expression; \<open>py_float\<close>, \<open>py_str\<close>, \<open>py_abs\<close> are Python's built-ins applied to
  an expression, \<open>py_gt e c\<close> is the truth value of \<^verbatim>\<open>e > c\<close> for a float
  \<open>c\<close>, and \<open>py_add\<close>, \<open>py_mul\<close>, \<open>py_pow\<close> are the operators \<^verbatim>\<open>+\<close>,
  \<^verbatim>\<open>*\<close> and \<^verbatim>\<open>**\<close>. \<open>sp_latex\<close> is the printer called with
  \<^verbatim>\<open>mul_symbol="dot"\<close>.
\<close>

section \<open>The module \<^verbatim>\<open>sympy_calls.py\<close>\<close>

subsection \<open>The function table\<close>

definition lambda1 :: "('e \<Rightarrow> exn + 'e) \<Rightarrow> 'e pyobj" where
  "lambda1 f = Callable (\<lambda>args. case args of
       [x] \<Rightarrow> f x
     | _ \<Rightarrow> Inl (TypeError, ''<lambda>() takes 1 positional argument''))"

definition lambda2 :: "('e \<Rightarrow> 'e \<Rightarrow> exn + 'e) \<Rightarrow> 'e pyobj" where
  "lambda2 f = Callable (\<lambda>args. case args of
       [x, n] \<Rightarrow> f x n
     | _ \<Rightarrow> Inl (TypeError, ''<lambda>() takes 2 positional arguments''))"

definition get_math_functions :: "'e sympy \<Rightarrow> 'e pyobj dict" where
  "get_math_functions L =
    [(''sin'', Attr Sp_sin),
     (''sen'', Attr Sp_sin),
     (''cos'', Attr Sp_cos),
     (''tan'', Attr Sp_tan),
     (''cot'', Attr Sp_cot),
     (''sec'', Attr Sp_sec),
     (''csc'', Attr Sp_csc),
     (''asin'', Attr Sp_asin),
     (''acos'', Attr Sp_acos),
     (''atan'', Attr Sp_atan),
     (''acot'', Attr Sp_acot),
     (''asec'', Attr Sp_asec),
     (''acsc'', Attr Sp_acsc),
     (''sinh'', Attr Sp_sinh),
     (''cosh'', Attr Sp_cosh),
     (''tanh'', Attr Sp_tanh),
     (''coth'', Attr Sp_coth),
     (''sech'', Attr Sp_sech),
     (''csch'', Attr Sp_csch),
     (''asinh'', Attr Sp_asinh),
     (''acosh'', Attr Sp_acosh),
     (''atanh'', Attr Sp_atanh),
     (''acoth'', Attr Sp_acoth),
     (''asech'', Attr Sp_asech),
     (''acsch'', Attr Sp_acsch),
     (''log'', Attr Sp_log),
     (''log10'', lambda1 (\<lambda>x. sp_call L Sp_log [x, sp_Integer L 10])),
     (''log2'', lambda1 (\<lambda>x. sp_call L Sp_log [x, sp_Integer L 2])),
     (''ln'', Attr Sp_ln),
     (''exp'', Attr Sp_exp),
     (''exp_polar'', Attr Sp_exp_polar),
     (''sqrt'', Attr Sp_sqrt),
     (''cbrt'', lambda1 (\<lambda>x.
        seq (sp_Rational L (sp_Integer L 1) (sp_Integer L 3)) (py_pow L x))),
     (''root'', lambda2 (\<lambda>x n.
        seq (sp_Rational L (sp_Integer L 1) n) (py_pow L x))),
     (''erf'', Attr Sp_erf),
     (''erfc'', Attr Sp_erfc),
     (''gamma'', Attr Sp_gamma),
     (''beta'', Attr Sp_beta),
     (''zeta'', Attr Sp_zeta),
     (''besselj'', Attr Sp_besselj),
     (''bessely'', Attr Sp_bessely),
     (''besseli'', Attr Sp_besseli),
     (''besselk'', Attr Sp_besselk),
     (''sinc'', Attr Sp_sinc),
     (''digamma'', Attr Sp_digamma),
     (''LambertW'', Attr Sp_LambertW),
     (''Ynm'', Attr Sp_Ynm),
     (''assoc_legendre'', Attr Sp_assoc_legendre),
     (''hermite'', Attr Sp_hermite),
     (''elliptic_e'', Attr Sp_elliptic_e),
     (''elliptic_k'', Attr Sp_elliptic_k),
     (''pi'', Attr Sp_pi),
     (''e'', Attr Sp_E),
     (''E'', Attr Sp_E),
     (''I'', Attr Sp_I),
     (''j'', Attr Sp_I)]"

subsection \<open>The expression preprocessor\<close>

text \<open>\<^verbatim>\<open>symbols = {var: sp.Symbol(var) for var in variables}\<close>\<close>

definition symbols :: "'e sympy \<Rightarrow> string list \<Rightarrow> 'e pyobj dict" where
  "symbols L variables =
     fold (\<lambda>var d. AList.update var (Expr (sp_Symbol L var)) d) variables []"

text \<open>\<^verbatim>\<open>combined_locals = {**symbols, **math_functions}\<close>\<close>

definition combined_locals :: "'e sympy \<Rightarrow> string list \<Rightarrow> 'e pyobj dict \<Rightarrow> 'e pyobj dict" where
  "combined_locals L variables math_functions = dict_merge (symbols L variables) math_functions"

definition preprocess_formula ::
  "'e sympy \<Rightarrow> string \<Rightarrow> string list \<Rightarrow> 'e pyobj dict \<Rightarrow> exn + 'e" where
  "preprocess_formula L formula variables math_functions =
     parse_expr L formula (combined_locals L variables math_functions)"

subsection \<open>Derivatives and numerical values\<close>

record outcome =
  success :: bool
  error :: "string option"

record symbolic_data = outcome +
  expression :: string
  derivatives :: "string dict"
  numerical_value :: real
  numerical_derivatives :: "real dict"

text \<open>The first loop: one derivative per variable, stored as its printed form.\<close>

definition derivative_string :: "'e sympy \<Rightarrow> 'e \<Rightarrow> string \<Rightarrow> exn + string" where
  "derivative_string L expr var =
     seq (sp_diff L expr (sp_Symbol L var)) (\<lambda>deriv. py_str L deriv)"

fun derivatives_loop ::
  "'e sympy \<Rightarrow> 'e \<Rightarrow> string list \<Rightarrow> string dict \<Rightarrow> exn + string dict" where
  "derivatives_loop L expr [] ds = Inr ds"
| "derivatives_loop L expr (var # vars) ds =
     (case derivative_string L expr var of
        Inl e \<Rightarrow> Inl e
      | Inr s \<Rightarrow> derivatives_loop L expr vars (AList.update var s ds))"

text \<open>
  \<^verbatim>\<open>value_subs = {var: values[i] for i, var in enumerate(variables)}\<close>: the index
  \<open>i\<close> counts the variables from 0, and \<^verbatim>\<open>values[i]\<close> raises IndexError once
  \<open>i\<close> reaches the length of \<open>values\<close>.
\<close>

fun value_subs_from :: "nat \<Rightarrow> string list \<Rightarrow> real list \<Rightarrow> real dict \<Rightarrow> exn + real dict" where
  "value_subs_from i [] vals d = Inr d"
| "value_subs_from i (var # vars) vals d =
     (if i < length vals
      then value_subs_from (Suc i) vars vals (AList.update var (vals ! i) d)
      else Inl (IndexError, ''list index out of range''))"

definition value_subs :: "string list \<Rightarrow> real list \<Rightarrow> exn + real dict" where
  "value_subs variables vals = value_subs_from 0 variables vals []"

text \<open>
  One round of the second loop, in three steps: the derivative's printed form is read
  back and evaluated at the supplied values; the absolute value of its imaginary part is
  compared with the tolerance; the real part is converted to a float.
\<close>

definition derivative_value :: "'e sympy \<Rightarrow> string \<Rightarrow> real dict \<Rightarrow> exn + 'e" where
  "derivative_value L s vs =
     seq (sp_sympify L s) (\<lambda>deriv_expr.
     seq (expr_subs L deriv_expr vs) (\<lambda>substituted.
     expr_evalf L substituted))"

definition significant_imaginary :: "'e sympy \<Rightarrow> 'e \<Rightarrow> exn + bool" where
  "significant_imaginary L deriv_value =
     seq (sp_im L deriv_value) (\<lambda>imag.
     seq (py_abs L imag) (\<lambda>magnitude.
     py_gt L magnitude (1 / 10 ^ 10)))"

definition numerical_derivative ::
  "'e sympy \<Rightarrow> string dict \<Rightarrow> real dict \<Rightarrow> string \<Rightarrow> exn + real" where
  "numerical_derivative L ds vs var =
     (case map_of ds var of
        None \<Rightarrow> Inl (KeyError, var)
      | Some s \<Rightarrow>
          seq (derivative_value L s vs) (\<lambda>deriv_value.
          seq (significant_imaginary L deriv_value) (\<lambda>exceeds.
          if exceeds
          then Inl (ValueError,
                 ''Derivative with respect to '' @ var @ '' has a significant imaginary part.'')
          else seq (sp_re L deriv_value) (\<lambda>real_part. py_float L real_part))))"

fun numerical_derivatives_loop ::
  "'e sympy \<Rightarrow> string dict \<Rightarrow> real dict \<Rightarrow> string list \<Rightarrow> real dict \<Rightarrow> exn + real dict" where
  "numerical_derivatives_loop L ds vs [] nd = Inr nd"
| "numerical_derivatives_loop L ds vs (var # vars) nd =
     (case numerical_derivative L ds vs var of
        Inl e \<Rightarrow> Inl e
      | Inr x \<Rightarrow> numerical_derivatives_loop L ds vs vars (AList.update var x nd))"

text \<open>
  The numerical value of the expression: after the substitution, a symbol that is still
  free raises ValueError; otherwise the value is evaluated and converted to a float.
\<close>

definition numerical_value_of :: "'e sympy \<Rightarrow> 'e \<Rightarrow> real dict \<Rightarrow> exn + real" where
  "numerical_value_of L expr vs =
     seq (expr_subs L expr vs) (\<lambda>expr_value.
     if expr_free_symbols L expr_value \<noteq> {}
     then Inl (ValueError, ''Expression could not be fully evaluated: missing variables?'')
     else seq (expr_evalf L expr_value) (\<lambda>expr_value. py_float L expr_value))"

text \<open>The body of the \<^verbatim>\<open>try\<close> block of \<^verbatim>\<open>calculate_symbolic_data\<close>.\<close>

definition symbolic_body ::
  "'e sympy \<Rightarrow> string \<Rightarrow> string list \<Rightarrow> real list \<Rightarrow> exn + symbolic_data" where
  "symbolic_body L formula variables vals =
     seq (preprocess_formula L formula variables (get_math_functions L)) (\<lambda>expr.
     seq (derivatives_loop L expr variables []) (\<lambda>ds.
     seq (value_subs variables vals) (\<lambda>vs.
     seq (numerical_value_of L expr vs) (\<lambda>number.
     seq (numerical_derivatives_loop L ds vs variables []) (\<lambda>nd.
     seq (py_str L expr) (\<lambda>printed.
     Inr \<lparr>success = True, error = None, expression = printed, derivatives = ds,
          numerical_value = number, numerical_derivatives = nd\<rparr>))))))"

text \<open>The three handlers, tried in the order written.\<close>

definition calculate_symbolic_data ::
  "'e sympy \<Rightarrow> string \<Rightarrow> string list \<Rightarrow> real list \<Rightarrow> symbolic_data" where
  "calculate_symbolic_data L formula variables vals =
     (case symbolic_body L formula variables vals of
        Inr r \<Rightarrow> r
      | Inl e \<Rightarrow>
          if isinstance e SympifyError then
            \<lparr>success = False, error = Some (''Invalid formula syntax: '' @ snd e),
             expression = formula, derivatives = [], numerical_value = 0,
             numerical_derivatives = []\<rparr>
          else if isinstance e ValueError then
            \<lparr>success = False, error = Some (''Evaluation error: '' @ snd e),
             expression = formula, derivatives = [], numerical_value = 0,
             numerical_derivatives = []\<rparr>
          else
            \<lparr>success = False, error = Some (''Unexpected error: '' @ snd e),
             expression = formula, derivatives = [], numerical_value = 0,
             numerical_derivatives = []\<rparr>)"

subsection \<open>The uncertainty formula\<close>

record latex_data = outcome +
  string :: string
  latex :: string

text \<open>The Greek letter sigma (U+03C3) that starts the name of an uncertainty symbol, in UTF-8.\<close>

definition sigma :: string where
  "sigma = [CHR 0xCF, CHR 0x83]"

text \<open>
  One round of the loop: the term \<^verbatim>\<open>(deriv * sigma_var)**2\<close>. The loop also stores
  \<^verbatim>\<open>deriv\<close> in a dictionary that is never read; it is left out.
\<close>

definition uncertainty_term :: "'e sympy \<Rightarrow> 'e \<Rightarrow> string \<Rightarrow> exn + 'e" where
  "uncertainty_term L expr var =
     seq (sp_diff L expr (sp_Symbol L var)) (\<lambda>deriv.
     seq (py_mul L deriv (sp_Symbol L (sigma @ ''_'' @ var))) (\<lambda>product.
     py_pow L product (sp_Integer L 2)))"

fun uncertainty_loop :: "'e sympy \<Rightarrow> 'e \<Rightarrow> string list \<Rightarrow> 'e list \<Rightarrow> exn + 'e list" where
  "uncertainty_loop L expr [] uncertainty_terms = Inr uncertainty_terms"
| "uncertainty_loop L expr (var # vars) uncertainty_terms =
     (case uncertainty_term L expr var of
        Inl e \<Rightarrow> Inl e
      | Inr t \<Rightarrow> uncertainty_loop L expr vars (uncertainty_terms @ [t]))"

text \<open>Python's \<^verbatim>\<open>sum\<close>: it starts from the integer 0 and adds the items in order.\<close>

fun py_sum_from :: "'e sympy \<Rightarrow> 'e \<Rightarrow> 'e list \<Rightarrow> exn + 'e" where
  "py_sum_from L acc [] = Inr acc"
| "py_sum_from L acc (t # ts) =
     (case py_add L acc t of Inl e \<Rightarrow> Inl e | Inr acc' \<Rightarrow> py_sum_from L acc' ts)"

definition py_sum :: "'e sympy \<Rightarrow> 'e list \<Rightarrow> exn + 'e" where
  "py_sum L ts = py_sum_from L (sp_Integer L 0) ts"

definition latex_body :: "'e sympy \<Rightarrow> string \<Rightarrow> string list \<Rightarrow> exn + latex_data" where
  "latex_body L formula variables =
     seq (preprocess_formula L formula variables (get_math_functions L)) (\<lambda>expr.
     seq (uncertainty_loop L expr variables []) (\<lambda>uncertainty_terms.
     seq (py_sum L uncertainty_terms) (\<lambda>uncertainty_sum.
     seq (sp_call L Sp_sqrt [uncertainty_sum]) (\<lambda>uncertainty_expr.
     seq (sp_latex L uncertainty_expr) (\<lambda>latex_formula.
     seq (py_str L uncertainty_expr) (\<lambda>string_formula.
     Inr \<lparr>success = True, error = None, string = string_formula,
          latex = latex_formula\<rparr>))))))"

definition generate_latex_data :: "'e sympy \<Rightarrow> string \<Rightarrow> string list \<Rightarrow> latex_data" where
  "generate_latex_data L formula variables =
     (case latex_body L formula variables of
        Inr r \<Rightarrow> r
      | Inl e \<Rightarrow> \<lparr>success = False, error = Some (snd e), string = [], latex = []\<rparr>)"

section \<open>A reference model of the library\<close>

text \<open>
  Modelled from the spec: the library sympy itself (parsing, differentiation, substitution,
  numerical evaluation and printing) is not part of this repository. The spec describes
  it as an expression tree with leaves (Symbols, numerals, constants) and operators, a
  grammar with implicit multiplication, a derivative engine and a numeric evaluator with
  possibly complex values. The definitions of this section model that on a fragment:
  non-negative integer numerals, names, the constants \<open>pi\<close>, \<open>E\<close> and \<open>I\<close>, the
  operators \<^verbatim>\<open>+\<close>, \<^verbatim>\<open>*\<close> and \<^verbatim>\<open>**\<close>, parentheses and calls of a function
  with one argument. Whatever lies outside the fragment is answered by
  \<open>NotImplementedError\<close>, and nothing below is stated about such an input. Of the
  library's automatic simplification, the folding of numerals, the units 0 and 1 and the
  numeral-first order of a product are modelled; the collection of like terms and the
  canonical order of the other arguments are not, so a printed form is the library's
  only for an expression written in that order. The texts of the library's exceptions
  are indicative; the handlers of the module look at their classes only.
\<close>

datatype expr =
    Integer int | Rational int int | Float real | Sym string
  | ImaginaryUnit | Pi | Exp1
  | Add expr expr | Mul expr expr | Pow expr expr
  | Apply sp_attr "expr list"

definition outside :: "exn + 'a" where
  "outside = Inl (NotImplementedError, ''outside the modelled fragment'')"

subsection \<open>Operators with the automatic simplification\<close>

text \<open>
  Modelled from the spec: the operator nodes of the library's expression tree, built
  with the simplification the library applies whenever it makes a sum, a product or a
  power.
\<close>

definition mk_add :: "expr \<Rightarrow> expr \<Rightarrow> expr" where
  "mk_add a b =
     (case a of
        Integer m \<Rightarrow>
          (case b of
             Integer n \<Rightarrow> Integer (m + n)
           | Float y \<Rightarrow> Float (of_int m + y)
           | _ \<Rightarrow> if m = 0 then b else Add a b)
      | Float x \<Rightarrow>
          (case b of
             Integer n \<Rightarrow> Float (x + of_int n)
           | Float y \<Rightarrow> Float (x + y)
           | _ \<Rightarrow> Add a b)
      | _ \<Rightarrow>
          (case b of
             Integer n \<Rightarrow> if n = 0 then a else Add b a
           | Float y \<Rightarrow> Add b a
           | _ \<Rightarrow> Add a b))"

definition mk_mul :: "expr \<Rightarrow> expr \<Rightarrow> expr" where
  "mk_mul a b =
     (case a of
        Integer m \<Rightarrow>
          (case b of
             Integer n \<Rightarrow> Integer (m * n)
           | Float y \<Rightarrow> if m = 0 then Integer 0 else Float (of_int m * y)
           | _ \<Rightarrow> if m = 0 then Integer 0 else if m = 1 then b else Mul a b)
      | Float x \<Rightarrow>
          (case b of
             Integer n \<Rightarrow> if n = 0 then Integer 0 else Float (x * of_int n)
           | Float y \<Rightarrow> Float (x * y)
           | _ \<Rightarrow> if x = 0 then Integer 0 else Mul a b)
      | _ \<Rightarrow>
          (case b of
             Integer n \<Rightarrow> if n = 0 then Integer 0 else if n = 1 then a else Mul b a
           | Float y \<Rightarrow> if y = 0 then Integer 0 else Mul b a
           | _ \<Rightarrow> Mul a b))"

definition mk_pow :: "expr \<Rightarrow> expr \<Rightarrow> expr" where
  "mk_pow a b =
     (case b of
        Integer n \<Rightarrow>
          if n = 0 then Integer 1
          else if n = 1 then a
          else if n < 0 then Pow a b
          else (case a of
                  Integer m \<Rightarrow> Integer (m ^ nat n)
                | Float x \<Rightarrow> Float (x ^ nat n)
                | Pow c (Integer k) \<Rightarrow> Pow c (Integer (k * n))
                | _ \<Rightarrow> Pow a b)
      | _ \<Rightarrow> Pow a b)"

subsection \<open>Free symbols, substitution, differentiation\<close>

text \<open>
  Modelled from the spec: the free symbols of an expression, the substitution of a
  Numeric Binding, and the library's Derivative Engine (sum, product, power and chain
  rule).
\<close>

fun symbols_in :: "expr \<Rightarrow> string list" where
  "symbols_in (Sym s) = [s]"
| "symbols_in (Add a b) = symbols_in a @ symbols_in b"
| "symbols_in (Mul a b) = symbols_in a @ symbols_in b"
| "symbols_in (Pow a b) = symbols_in a @ symbols_in b"
| "symbols_in (Apply f args) = concat (map symbols_in args)"
| "symbols_in (Integer n) = []"
| "symbols_in (Rational p q) = []"
| "symbols_in (Float x) = []"
| "symbols_in ImaginaryUnit = []"
| "symbols_in Pi = []"
| "symbols_in Exp1 = []"

definition free_symbols_ref :: "expr \<Rightarrow> expr set" where
  "free_symbols_ref e = Sym ` set (symbols_in e)"

text \<open>A key of the substitution dictionary is a string; the library reads it as a Symbol.\<close>

fun subst :: "real dict \<Rightarrow> expr \<Rightarrow> expr" where
  "subst vs (Sym s) = (case map_of vs s of Some x \<Rightarrow> Float x | None \<Rightarrow> Sym s)"
| "subst vs (Add a b) = mk_add (subst vs a) (subst vs b)"
| "subst vs (Mul a b) = mk_mul (subst vs a) (subst vs b)"
| "subst vs (Pow a b) = mk_pow (subst vs a) (subst vs b)"
| "subst vs (Apply f args) = Apply f (map (subst vs) args)"
| "subst vs (Integer n) = Integer n"
| "subst vs (Rational p q) = Rational p q"
| "subst vs (Float x) = Float x"
| "subst vs ImaginaryUnit = ImaginaryUnit"
| "subst vs Pi = Pi"
| "subst vs Exp1 = Exp1"

definition subs_ref :: "expr \<Rightarrow> real dict \<Rightarrow> exn + expr" where
  "subs_ref e vs = Inr (subst vs e)"

text \<open>The derivative with respect to the symbol named \<open>v\<close>; \<open>None\<close> outside the fragment.\<close>

fun deriv :: "string \<Rightarrow> expr \<Rightarrow> expr option" where
  "deriv v (Sym s) = Some (Integer (if s = v then 1 else 0))"
| "deriv v (Add a b) =
     (case deriv v a of
        None \<Rightarrow> None
      | Some a' \<Rightarrow>
          (case deriv v b of None \<Rightarrow> None | Some b' \<Rightarrow> Some (mk_add a' b')))"
| "deriv v (Mul a b) =
     (case deriv v a of
        None \<Rightarrow> None
      | Some a' \<Rightarrow>
          (case deriv v b of
             None \<Rightarrow> None
           | Some b' \<Rightarrow> Some (mk_add (mk_mul a' b) (mk_mul a b'))))"
| "deriv v (Pow a b) =
     (case b of
        Integer n \<Rightarrow>
          (case deriv v a of
             None \<Rightarrow> None
           | Some a' \<Rightarrow> Some (mk_mul (mk_mul (Integer n) (mk_pow a (Integer (n - 1)))) a'))
      | _ \<Rightarrow> None)"
| "deriv v (Apply f args) =
     (case args of
        [u] \<Rightarrow>
          (case deriv v u of
             None \<Rightarrow> None
           | Some u' \<Rightarrow>
               if f = Sp_sin then Some (mk_mul u' (Apply Sp_cos [u]))
               else if f = Sp_exp then Some (mk_mul u' (Apply Sp_exp [u]))
               else None)
      | _ \<Rightarrow> None)"
| "deriv v (Integer n) = Some (Integer 0)"
| "deriv v (Rational p q) = Some (Integer 0)"
| "deriv v (Float x) = Some (Integer 0)"
| "deriv v ImaginaryUnit = Some (Integer 0)"
| "deriv v Pi = Some (Integer 0)"
| "deriv v Exp1 = Some (Integer 0)"

definition diff_ref :: "expr \<Rightarrow> expr \<Rightarrow> exn + expr" where
  "diff_ref e x =
     (case x of
        Sym v \<Rightarrow> (case deriv v e of Some d \<Rightarrow> Inr d | None \<Rightarrow> outside)
      | _ \<Rightarrow> Inl (ValueError, ''Can't calculate derivative wrt this expression.''))"

subsection \<open>Numerical evaluation\<close>

text \<open>
  Modelled from the spec: the library's numerical reduction of an expression without
  symbols to a possibly complex number, and the conversions and comparisons of such a
  number.
\<close>

text \<open>The complex number an expression without symbols denotes.\<close>

fun numeric :: "expr \<Rightarrow> complex option" where
  "numeric (Integer n) = Some (of_int n)"
| "numeric (Rational p q) = Some (of_int p / of_int q)"
| "numeric (Float x) = Some (of_real x)"
| "numeric (Sym s) = None"
| "numeric ImaginaryUnit = Some \<i>"
| "numeric Pi = Some (of_real pi)"
| "numeric Exp1 = Some (of_real (exp 1))"
| "numeric (Add a b) =
     (case numeric a of
        None \<Rightarrow> None
      | Some x \<Rightarrow> (case numeric b of None \<Rightarrow> None | Some y \<Rightarrow> Some (x + y)))"
| "numeric (Mul a b) =
     (case numeric a of
        None \<Rightarrow> None
      | Some x \<Rightarrow> (case numeric b of None \<Rightarrow> None | Some y \<Rightarrow> Some (x * y)))"
| "numeric (Pow a b) =
     (case b of
        Integer n \<Rightarrow>
          (case numeric a of
             None \<Rightarrow> None
           | Some x \<Rightarrow> if 0 \<le> n then Some (x ^ nat n) else None)
      | _ \<Rightarrow> None)"
| "numeric (Apply f args) = None"

text \<open>The shape of an evaluated number: a Float, or a Float times the imaginary unit, or their sum.\<close>

definition of_complex :: "complex \<Rightarrow> expr" where
  "of_complex z =
     (if Im z = 0 then Float (Re z)
      else if Re z = 0 then Mul (Float (Im z)) ImaginaryUnit
      else Add (Float (Re z)) (Mul (Float (Im z)) ImaginaryUnit))"

definition evalf_ref :: "expr \<Rightarrow> exn + expr" where
  "evalf_ref e = (case numeric e of Some z \<Rightarrow> Inr (of_complex z) | None \<Rightarrow> outside)"

definition float_ref :: "expr \<Rightarrow> exn + real" where
  "float_ref e =
     (case numeric e of
        Some z \<Rightarrow>
          if Im z = 0 then Inr (Re z)
          else Inl (TypeError, ''Cannot convert complex to float'')
      | None \<Rightarrow> Inl (TypeError, ''Cannot convert expression to float''))"

definition im_ref :: "expr \<Rightarrow> exn + expr" where
  "im_ref e =
     (case numeric e of
        Some z \<Rightarrow> Inr (if Im z = 0 then Integer 0 else Float (Im z))
      | None \<Rightarrow> outside)"

definition re_ref :: "expr \<Rightarrow> exn + expr" where
  "re_ref e = (case numeric e of Some z \<Rightarrow> Inr (Float (Re z)) | None \<Rightarrow> outside)"

definition abs_ref :: "expr \<Rightarrow> exn + expr" where
  "abs_ref e = (case numeric e of Some z \<Rightarrow> Inr (Float (cmod z)) | None \<Rightarrow> outside)"

definition gt_ref :: "expr \<Rightarrow> real \<Rightarrow> exn + bool" where
  "gt_ref e c =
     (case numeric e of
        Some z \<Rightarrow>
          if Im z = 0 then Inr (c < Re z)
          else Inl (TypeError, ''Invalid comparison of non-real number'')
      | None \<Rightarrow> Inl (TypeError, ''cannot determine truth value of Relational''))"

subsection \<open>Printing\<close>

text \<open>
  Modelled from the spec: the library's plain-text and typeset serializations of an
  expression.
\<close>

definition digit_chars :: string where
  "digit_chars = ''0123456789''"

function digits :: "nat \<Rightarrow> string" where
  "digits n = (if n < 10 then [digit_chars ! n] else digits (n div 10) @ [digit_chars ! (n mod 10)])"
  by pat_completeness auto
termination
  by (relation "measure id") auto

declare digits.simps [simp del]

definition is_sum :: "expr \<Rightarrow> bool" where
  "is_sum e = (case e of Add a b \<Rightarrow> True | _ \<Rightarrow> False)"

definition is_literal :: "expr \<Rightarrow> bool" where
  "is_literal e = (case e of Integer n \<Rightarrow> True | _ \<Rightarrow> False)"

definition is_atom :: "expr \<Rightarrow> bool" where
  "is_atom e =
     (case e of
        Integer n \<Rightarrow> 0 \<le> n
      | Sym s \<Rightarrow> True
      | ImaginaryUnit \<Rightarrow> True
      | Pi \<Rightarrow> True
      | Exp1 \<Rightarrow> True
      | Apply f args \<Rightarrow> True
      | _ \<Rightarrow> False)"

definition parens :: "bool \<Rightarrow> string \<Rightarrow> string" where
  "parens b s = (if b then ''('' @ s @ '')'' else s)"

definition is_half :: "expr \<Rightarrow> bool" where
  "is_half e = (case e of Rational p q \<Rightarrow> p = 1 \<and> q = 2 | _ \<Rightarrow> False)"

text \<open>
  The printed form \<^verbatim>\<open>str(e)\<close>. A sum is printed with its numeral last, a product with
  its numeral first, a power with exponent one half as a square root.
\<close>

fun str_of :: "expr \<Rightarrow> string option" where
  "str_of (Integer n) = (if 0 \<le> n then Some (digits (nat n)) else None)"
| "str_of (Rational p q) = None"
| "str_of (Float x) = None"
| "str_of (Sym s) = Some s"
| "str_of ImaginaryUnit = Some ''I''"
| "str_of Pi = Some ''pi''"
| "str_of Exp1 = Some ''E''"
| "str_of (Add a b) =
     (case str_of a of
        None \<Rightarrow> None
      | Some x \<Rightarrow>
          (case str_of b of
             None \<Rightarrow> None
           | Some y \<Rightarrow> Some (if is_literal a then y @ '' + '' @ x else x @ '' + '' @ y)))"
| "str_of (Mul a b) =
     (case str_of a of
        None \<Rightarrow> None
      | Some x \<Rightarrow>
          (case str_of b of
             None \<Rightarrow> None
           | Some y \<Rightarrow> Some (parens (is_sum a) x @ ''*'' @ parens (is_sum b) y)))"
| "str_of (Pow a b) =
     (case str_of a of
        None \<Rightarrow> None
      | Some x \<Rightarrow>
          if is_half b then Some (''sqrt('' @ x @ '')'')
          else (case str_of b of
                  None \<Rightarrow> None
                | Some y \<Rightarrow> Some (parens (\<not> is_atom a) x @ ''**'' @ parens (\<not> is_atom b) y)))"
| "str_of (Apply f args) =
     (case args of
        [u] \<Rightarrow>
          (case str_of u of
             None \<Rightarrow> None
           | Some x \<Rightarrow>
               if f = Sp_sin then Some (''sin('' @ x @ '')'')
               else if f = Sp_cos then Some (''cos('' @ x @ '')'')
               else if f = Sp_exp then Some (''exp('' @ x @ '')'')
               else None)
      | _ \<Rightarrow> None)"

definition str_ref :: "expr \<Rightarrow> exn + string" where
  "str_ref e = (case str_of e of Some s \<Rightarrow> Inr s | None \<Rightarrow> outside)"

definition letters :: string where
  "letters = ''abcdefghijklmnopqrstuvwxyzABCDEFGHIJKLMNOPQRSTUVWXYZ_''"

definition is_letter :: "char \<Rightarrow> bool" where
  "is_letter c = (c \<in> set letters)"

definition is_digit :: "char \<Rightarrow> bool" where
  "is_digit c = (c \<in> set digit_chars)"

text \<open>A name the typesetter leaves as it is: one letter, or the letter sigma.\<close>

definition plain_name :: "string \<Rightarrow> bool" where
  "plain_name t = (case t of [c] \<Rightarrow> is_letter c \<and> c \<noteq> CHR ''_'' | _ \<Rightarrow> t = sigma)"

definition backslash :: string where
  "backslash = [CHR 0x5C]"

text \<open>A symbol's name is typeset with what follows an underscore as its subscript.\<close>

definition latex_symbol :: "string \<Rightarrow> string option" where
  "latex_symbol s =
     (let base = takeWhile (\<lambda>c. c \<noteq> CHR ''_'') s; sub = drop (Suc (length base)) s in
      if plain_name s then Some s
      else if plain_name base \<and> plain_name sub \<and> s = base @ ''_'' @ sub
      then Some (base @ ''_{'' @ sub @ ''}'')
      else None)"

fun latex_of :: "expr \<Rightarrow> string option" where
  "latex_of (Integer n) = (if 0 \<le> n then Some (digits (nat n)) else None)"
| "latex_of (Rational p q) = None"
| "latex_of (Float x) = None"
| "latex_of (Sym s) = latex_symbol s"
| "latex_of ImaginaryUnit = Some ''i''"
| "latex_of Pi = Some (backslash @ ''pi'')"
| "latex_of Exp1 = Some ''e''"
| "latex_of (Add a b) =
     (case latex_of a of
        None \<Rightarrow> None
      | Some x \<Rightarrow>
          (case latex_of b of
             None \<Rightarrow> None
           | Some y \<Rightarrow> Some (if is_literal a then y @ '' + '' @ x else x @ '' + '' @ y)))"
| "latex_of (Mul a b) =
     (case latex_of a of
        None \<Rightarrow> None
      | Some x \<Rightarrow>
          (case latex_of b of
             None \<Rightarrow> None
           | Some y \<Rightarrow>
               if is_sum a \<or> is_sum b then None
               else Some (x @ '' '' @ backslash @ ''cdot '' @ y)))"
| "latex_of (Pow a b) =
     (case latex_of a of
        None \<Rightarrow> None
      | Some x \<Rightarrow>
          if is_half b then Some (backslash @ ''sqrt{'' @ x @ ''}'')
          else (case latex_of b of
                  None \<Rightarrow> None
                | Some y \<Rightarrow>
                    if is_atom a \<and> is_literal b \<and> \<not> is_literal a
                    then Some (x @ ''^{'' @ y @ ''}'')
                    else None))"
| "latex_of (Apply f args) = None"

definition latex_ref :: "expr \<Rightarrow> exn + string" where
  "latex_ref e = (case latex_of e of Some s \<Rightarrow> Inr s | None \<Rightarrow> outside)"

subsection \<open>Calls of the library's functions and constructors\<close>

text \<open>
  Modelled from the spec: what the library's constants, functions and constructors are
  when the parser or the module calls them.
\<close>

definition const_of :: "sp_attr \<Rightarrow> expr option" where
  "const_of a =
     (if a = Sp_pi then Some Pi
      else if a = Sp_E then Some Exp1
      else if a = Sp_I then Some ImaginaryUnit
      else None)"

text \<open>
  A function applied to an argument with a symbol in it stays as it is; the square root
  is the power one half. Values at numerals are outside the fragment.
\<close>

definition call_ref :: "sp_attr \<Rightarrow> expr list \<Rightarrow> exn + expr" where
  "call_ref f args =
     (case args of
        [u] \<Rightarrow>
          if f = Sp_sqrt then
            (case u of
               Integer n \<Rightarrow> if n = 0 \<or> n = 1 then Inr u else outside
             | Float x \<Rightarrow> outside
             | _ \<Rightarrow> Inr (Pow u (Rational 1 2)))
          else if f = Sp_sin \<or> f = Sp_cos \<or> f = Sp_exp then
            (if symbols_in u = [] then outside else Inr (Apply f [u]))
          else outside
      | _ \<Rightarrow> outside)"

definition rational_ref :: "expr \<Rightarrow> expr \<Rightarrow> exn + expr" where
  "rational_ref p q =
     (case p of
        Integer a \<Rightarrow>
          (case q of
             Integer b \<Rightarrow>
               if b = 1 then Inr (Integer a)
               else if 1 < b \<and> gcd a b = 1 then Inr (Rational a b)
               else outside
           | _ \<Rightarrow> Inl (TypeError, ''invalid input''))
      | _ \<Rightarrow> Inl (TypeError, ''invalid input''))"

subsection \<open>The parser\<close>

text \<open>
  Modelled from the spec: the library's parser, with the grammar the spec describes
  (algebraic and function-call syntax, and a product for adjacent operands), and the
  exceptions it raises on a formula it cannot read.
\<close>

text \<open>
  Tokens as Python's tokenizer splits a formula of the fragment: a numeral, a name, an
  operator or a parenthesis; blanks separate tokens. A numeral directly followed by a
  name is two tokens (\<^verbatim>\<open>2x\<close>), unless the letter may continue a Python number
  (\<^verbatim>\<open>2e3\<close>, \<^verbatim>\<open>2j\<close>, \<^verbatim>\<open>2_0\<close>, \<^verbatim>\<open>0x1\<close>), which is outside the fragment.
\<close>

datatype token = NUMBER nat | NAME string | PLUS | STAR | DOUBLESTAR | LPAR | RPAR

datatype lexstate = Idle | InNumber string | InName string | AfterStar

definition digit_of :: "char \<Rightarrow> nat" where
  "digit_of c = length (takeWhile (\<lambda>d. d \<noteq> c) digit_chars)"

definition number_of :: "string \<Rightarrow> nat" where
  "number_of ds = fold (\<lambda>c n. 10 * n + digit_of c) ds 0"

definition flush :: "lexstate \<Rightarrow> token list \<Rightarrow> exn + token list" where
  "flush st acc =
     (case st of
        Idle \<Rightarrow> Inr acc
      | InNumber ds \<Rightarrow>
          if 1 < length ds \<and> take 1 ds = ''0'' then outside
          else Inr (acc @ [NUMBER (number_of ds)])
      | InName s \<Rightarrow> Inr (acc @ [NAME s])
      | AfterStar \<Rightarrow> Inr (acc @ [STAR]))"

fun lex :: "lexstate \<Rightarrow> token list \<Rightarrow> string \<Rightarrow> exn + token list" where
  "lex st acc [] = flush st acc"
| "lex st acc (c # cs) =
     (if is_digit c then
        (case st of
           InNumber ds \<Rightarrow> lex (InNumber (ds @ [c])) acc cs
         | InName s \<Rightarrow> lex (InName (s @ [c])) acc cs
         | _ \<Rightarrow>
             (case flush st acc of
                Inl e \<Rightarrow> Inl e
              | Inr acc' \<Rightarrow> lex (InNumber [c]) acc' cs))
      else if is_letter c then
        (case st of
           InName s \<Rightarrow> lex (InName (s @ [c])) acc cs
         | InNumber ds \<Rightarrow>
             if c \<in> set ''eEjJ_'' \<or> ds = ''0'' then outside
             else (case flush st acc of
                     Inl e \<Rightarrow> Inl e
                   | Inr acc' \<Rightarrow> lex (InName [c]) acc' cs)
         | _ \<Rightarrow>
             (case flush st acc of
                Inl e \<Rightarrow> Inl e
              | Inr acc' \<Rightarrow> lex (InName [c]) acc' cs))
      else if c = CHR ''*'' then
        (case st of
           AfterStar \<Rightarrow> lex Idle (acc @ [DOUBLESTAR]) cs
         | _ \<Rightarrow>
             (case flush st acc of
                Inl e \<Rightarrow> Inl e
              | Inr acc' \<Rightarrow> lex AfterStar acc' cs))
      else
        (case flush st acc of
           Inl e \<Rightarrow> Inl e
         | Inr acc' \<Rightarrow>
             if c = CHR '' '' then lex Idle acc' cs
             else if c = CHR ''+'' then lex Idle (acc' @ [PLUS]) cs
             else if c = CHR ''('' then lex Idle (acc' @ [LPAR]) cs
             else if c = CHR '')'' then lex Idle (acc' @ [RPAR]) cs
             else outside))"

definition tokenize :: "string \<Rightarrow> exn + token list" where
  "tokenize s = lex Idle [] s"

text \<open>
  An opening parenthesis that is never closed makes the tokenizer raise TokenError at the
  end of the input. A closing parenthesis with nothing open is outside the fragment.
\<close>

fun balance :: "nat \<Rightarrow> token list \<Rightarrow> exn + unit" where
  "balance d [] = (if d = 0 then Inr () else Inl (TokenError, ''EOF in multi-line statement''))"
| "balance d (t # ts) =
     (if t = LPAR then balance (Suc d) ts
      else if t = RPAR then (case d of 0 \<Rightarrow> outside | Suc d' \<Rightarrow> balance d' ts)
      else balance d ts)"

text \<open>
  What the evaluation makes of a token: a name bound in the namespace is its object; a
  name bound nowhere is a new Symbol when it is one letter (longer unbound names, which
  the library splits into letters, and the one-letter names of the library's own
  namespace are outside the fragment).
\<close>

datatype item =
    Operand expr | Func "expr list \<Rightarrow> exn + expr"
  | Plus | Times | Power | Open | Close

definition resolve :: "(string \<Rightarrow> expr pyobj option) \<Rightarrow> token \<Rightarrow> exn + item" where
  "resolve ns t =
     (case t of
        NUMBER n \<Rightarrow> Inr (Operand (Integer (int n)))
      | NAME s \<Rightarrow>
          (case ns s of
             Some (Expr e) \<Rightarrow> Inr (Operand e)
           | Some (Attr a) \<Rightarrow>
               (case const_of a of
                  Some c \<Rightarrow> Inr (Operand c)
                | None \<Rightarrow> Inr (Func (call_ref a)))
           | Some (Callable f) \<Rightarrow> Inr (Func f)
           | None \<Rightarrow>
               (case s of
                  [c] \<Rightarrow> if c \<in> set ''NOQS'' then outside else Inr (Operand (Sym s))
                | _ \<Rightarrow> outside))
      | PLUS \<Rightarrow> Inr Plus
      | STAR \<Rightarrow> Inr Times
      | DOUBLESTAR \<Rightarrow> Inr Power
      | LPAR \<Rightarrow> Inr Open
      | RPAR \<Rightarrow> Inr Close)"

fun resolve_all :: "(string \<Rightarrow> expr pyobj option) \<Rightarrow> token list \<Rightarrow> exn + item list" where
  "resolve_all ns [] = Inr []"
| "resolve_all ns (t # ts) =
     (case resolve ns t of
        Inl e \<Rightarrow> Inl e
      | Inr i \<Rightarrow>
          (case resolve_all ns ts of
             Inl e \<Rightarrow> Inl e
           | Inr is \<Rightarrow> Inr (i # is)))"

text \<open>
  The evaluation of the token sequence, by operator precedence: \<^verbatim>\<open>**\<close> binds
  tighter than \<^verbatim>\<open>*\<close>, which binds tighter than \<^verbatim>\<open>+\<close>; \<^verbatim>\<open>**\<close> groups to
  the right. The stack holds the operators and opened parentheses that wait for their
  right operand; a function name is kept with the parenthesis that opens its argument.
\<close>

datatype waiting = WPlus | WTimes | WPower | WOpen | WCall "expr list \<Rightarrow> exn + expr"

definition binding :: "waiting \<Rightarrow> nat option" where
  "binding w =
     (case w of
        WPlus \<Rightarrow> Some 1
      | WTimes \<Rightarrow> Some 2
      | WPower \<Rightarrow> Some 3
      | _ \<Rightarrow> None)"

definition apply_op :: "waiting \<Rightarrow> expr list \<Rightarrow> expr list option" where
  "apply_op w out =
     (case out of
        b # a # rest \<Rightarrow>
          (case w of
             WPlus \<Rightarrow> Some (mk_add a b # rest)
           | WTimes \<Rightarrow> Some (mk_mul a b # rest)
           | WPower \<Rightarrow> Some (mk_pow a b # rest)
           | _ \<Rightarrow> None)
      | _ \<Rightarrow> None)"

text \<open>Apply the waiting operators that bind at least as tightly as \<open>p\<close>.\<close>

fun reduce :: "nat \<Rightarrow> waiting list \<Rightarrow> expr list \<Rightarrow> (waiting list \<times> expr list) option" where
  "reduce p [] out = Some ([], out)"
| "reduce p (w # ws) out =
     (case binding w of
        None \<Rightarrow> Some (w # ws, out)
      | Some q \<Rightarrow>
          if p \<le> q then
            (case apply_op w out of None \<Rightarrow> None | Some out' \<Rightarrow> reduce p ws out')
          else Some (w # ws, out))"

datatype position = Start | AfterOperand | AfterOperator | AfterOpen

definition syntax_error :: "exn + 'a" where
  "syntax_error = Inl (SyntaxError, ''invalid syntax'')"

text \<open>
  With \<open>implicit\<close> set, an operand, a function name or an opening parenthesis that
  follows an operand is read as if \<^verbatim>\<open>*\<close> stood between them; without it that is a
  syntax error.
\<close>

definition juxtapose ::
  "bool \<Rightarrow> position \<Rightarrow> waiting list \<Rightarrow> expr list \<Rightarrow> exn + (waiting list \<times> expr list)" where
  "juxtapose implicit pos ws out =
     (if pos = AfterOperand then
        (if implicit then
           (case reduce 2 ws out of
              None \<Rightarrow> syntax_error
            | Some (ws', out') \<Rightarrow> Inr (WTimes # ws', out'))
         else syntax_error)
      else Inr (ws, out))"

fun run ::
  "bool \<Rightarrow> position \<Rightarrow> waiting list \<Rightarrow> expr list \<Rightarrow> item list \<Rightarrow> exn + expr" where
  "run implicit pos ws out [] =
     (if pos = AfterOperand then
        (case reduce 0 ws out of
           Some ([], [e]) \<Rightarrow> Inr e
         | _ \<Rightarrow> syntax_error)
      else syntax_error)"
| "run implicit pos ws out (Operand e # its) =
     (case juxtapose implicit pos ws out of
        Inl x \<Rightarrow> Inl x
      | Inr (ws', out') \<Rightarrow> run implicit AfterOperand ws' (e # out') its)"
| "run implicit pos ws out (Open # its) =
     (case juxtapose implicit pos ws out of
        Inl x \<Rightarrow> Inl x
      | Inr (ws', out') \<Rightarrow> run implicit AfterOpen (WOpen # ws') out' its)"
| "run implicit pos ws out (Func f # its) =
     (case its of
        Open # its' \<Rightarrow>
          (case juxtapose implicit pos ws out of
             Inl x \<Rightarrow> Inl x
           | Inr (ws', out') \<Rightarrow> run implicit AfterOpen (WCall f # ws') out' its')
      | _ \<Rightarrow> outside)"
| "run implicit pos ws out (Plus # its) =
     (if pos = AfterOperand then
        (case reduce 1 ws out of
           None \<Rightarrow> syntax_error
         | Some (ws', out') \<Rightarrow> run implicit AfterOperator (WPlus # ws') out' its)
      else outside)"
| "run implicit pos ws out (Times # its) =
     (if pos = AfterOperand then
        (case reduce 2 ws out of
           None \<Rightarrow> syntax_error
         | Some (ws', out') \<Rightarrow> run implicit AfterOperator (WTimes # ws') out' its)
      else syntax_error)"
| "run implicit pos ws out (Power # its) =
     (if pos = AfterOperand then run implicit AfterOperator (WPower # ws) out its
      else syntax_error)"
| "run implicit pos ws out (Close # its) =
     (if pos = AfterOperand then
        (case reduce 0 ws out of
           Some (WOpen # ws', out') \<Rightarrow> run implicit AfterOperand ws' out' its
         | Some (WCall f # ws', e # out') \<Rightarrow>
             (case f [e] of
                Inl x \<Rightarrow> Inl x
              | Inr r \<Rightarrow> run implicit AfterOperand ws' (r # out') its)
         | _ \<Rightarrow> syntax_error)
      else if pos = AfterOperator then syntax_error
      else outside)"

definition parse_with :: "bool \<Rightarrow> (string \<Rightarrow> expr pyobj option) \<Rightarrow> string \<Rightarrow> exn + expr" where
  "parse_with implicit ns s =
     seq (tokenize s) (\<lambda>toks.
     seq (balance 0 toks) (\<lambda>u.
     seq (resolve_all ns toks) (\<lambda>items.
     run implicit Start [] [] items)))"

text \<open>The names of the library's own namespace that the fragment knows.\<close>

definition sympy_namespace :: "expr pyobj dict" where
  "sympy_namespace =
    [(''sin'', Attr Sp_sin),
     (''cos'', Attr Sp_cos),
     (''tan'', Attr Sp_tan),
     (''cot'', Attr Sp_cot),
     (''sec'', Attr Sp_sec),
     (''csc'', Attr Sp_csc),
     (''asin'', Attr Sp_asin),
     (''acos'', Attr Sp_acos),
     (''atan'', Attr Sp_atan),
     (''acot'', Attr Sp_acot),
     (''asec'', Attr Sp_asec),
     (''acsc'', Attr Sp_acsc),
     (''sinh'', Attr Sp_sinh),
     (''cosh'', Attr Sp_cosh),
     (''tanh'', Attr Sp_tanh),
     (''coth'', Attr Sp_coth),
     (''sech'', Attr Sp_sech),
     (''csch'', Attr Sp_csch),
     (''asinh'', Attr Sp_asinh),
     (''acosh'', Attr Sp_acosh),
     (''atanh'', Attr Sp_atanh),
     (''acoth'', Attr Sp_acoth),
     (''asech'', Attr Sp_asech),
     (''acsch'', Attr Sp_acsch),
     (''log'', Attr Sp_log),
     (''ln'', Attr Sp_ln),
     (''exp'', Attr Sp_exp),
     (''exp_polar'', Attr Sp_exp_polar),
     (''sqrt'', Attr Sp_sqrt),
     (''erf'', Attr Sp_erf),
     (''erfc'', Attr Sp_erfc),
     (''gamma'', Attr Sp_gamma),
     (''beta'', Attr Sp_beta),
     (''zeta'', Attr Sp_zeta),
     (''besselj'', Attr Sp_besselj),
     (''bessely'', Attr Sp_bessely),
     (''besseli'', Attr Sp_besseli),
     (''besselk'', Attr Sp_besselk),
     (''sinc'', Attr Sp_sinc),
     (''digamma'', Attr Sp_digamma),
     (''LambertW'', Attr Sp_LambertW),
     (''Ynm'', Attr Sp_Ynm),
     (''assoc_legendre'', Attr Sp_assoc_legendre),
     (''hermite'', Attr Sp_hermite),
     (''elliptic_e'', Attr Sp_elliptic_e),
     (''elliptic_k'', Attr Sp_elliptic_k),
     (''pi'', Attr Sp_pi),
     (''E'', Attr Sp_E),
     (''I'', Attr Sp_I)]"

definition parse_expr_ref :: "string \<Rightarrow> expr pyobj dict \<Rightarrow> exn + expr" where
  "parse_expr_ref s local_dict =
     parse_with True
       (\<lambda>name. case map_of local_dict name of
                 Some ob \<Rightarrow> Some ob
               | None \<Rightarrow> map_of sympy_namespace name) s"

text \<open>
  \<^verbatim>\<open>sympify\<close> of a string parses it in the library's namespace, without implicit
  multiplication, and turns a failure of the tokenizer or of the syntax into
  SympifyError. \<^verbatim>\<open>parse_expr\<close> itself lets these two through as they are.
\<close>

definition sympify_ref :: "string \<Rightarrow> exn + expr" where
  "sympify_ref s =
     (case parse_with False (map_of sympy_namespace) s of
        Inr e \<Rightarrow> Inr e
      | Inl x \<Rightarrow>
          if fst x = SyntaxError \<or> fst x = TokenError
          then Inl (SympifyError, ''could not parse '' @ s)
          else Inl x)"

definition sp :: "expr sympy" where
  "sp = \<lparr>sp_Symbol = Sym, sp_Integer = Integer, sp_Rational = rational_ref,
         sp_call = call_ref, parse_expr = parse_expr_ref, sp_sympify = sympify_ref,
         sp_diff = diff_ref, sp_im = im_ref, sp_re = re_ref, expr_subs = subs_ref,
         expr_free_symbols = free_symbols_ref, expr_evalf = evalf_ref,
         py_float = float_ref, py_str = str_ref, py_abs = abs_ref, py_gt = gt_ref,
         py_add = (\<lambda>a b. Inr (mk_add a b)), py_mul = (\<lambda>a b. Inr (mk_mul a b)),
         py_pow = (\<lambda>a b. Inr (mk_pow a b)), sp_latex = latex_ref\<rparr>"

section \<open>Properties of the module over any library\<close>

subsection \<open>Dictionaries\<close>

lemma map_of_dict_merge: "map_of (dict_merge a b) = map_of a ++ map_of (rev b)"
  unfolding dict_merge_def
proof (induction b arbitrary: a)
  case Nil
  show ?case by simp
next
  case (Cons kv b)
  obtain k v where kv: "kv = (k, v)" by (cases kv)
  have "map_of (fold (\<lambda>(k, v). AList.update k v) b (AList.update k v a))
        = map_of (AList.update k v a) ++ map_of (rev b)"
    by (rule Cons.IH)
  also have "\<dots> = map_of a ++ map_of (rev ((k, v) # b))"
    by (rule ext) (simp add: update_conv' map_add_def split: option.splits)
  finally show ?case by (simp add: kv)
qed

lemma map_of_rev_distinct: "distinct (map fst xs) \<Longrightarrow> map_of (rev xs) = map_of xs"
proof (induction xs)
  case Nil
  show ?case by simp
next
  case (Cons kv xs)
  obtain k v where kv: "kv = (k, v)" by (cases kv)
  from Cons.prems have k: "k \<notin> fst ` set xs" and d: "distinct (map fst xs)"
    by (simp_all add: kv)
  from k have none: "map_of xs k = None"
    by (simp add: map_of_eq_None_iff)
  show ?case
    using Cons.IH [OF d] none
    by (auto simp: kv map_add_def fun_eq_iff split: option.splits)
qed

lemma map_of_symbols_from:
  "map_of (fold (\<lambda>var d. AList.update var (Expr (sp_Symbol L var)) d) vars d0) name =
     (if name \<in> set vars then Some (Expr (sp_Symbol L name)) else map_of d0 name)"
  by (induction vars arbitrary: d0) (auto simp: update_conv')

lemma map_of_symbols:
  "map_of (symbols L variables) name =
     (if name \<in> set variables then Some (Expr (sp_Symbol L name)) else None)"
  by (simp add: symbols_def map_of_symbols_from)

text \<open>The dictionary literal of the function table names every key once.\<close>

lemma distinct_math_functions: "distinct (map fst (get_math_functions L))"
  by (simp add: get_math_functions_def)

text \<open>A lookup in the merged dictionary: the function table first, then the declared variables.\<close>

lemma map_of_combined_locals:
  "map_of (combined_locals L variables (get_math_functions L)) name =
     (case map_of (get_math_functions L) name of
        Some ob \<Rightarrow> Some ob
      | None \<Rightarrow> if name \<in> set variables then Some (Expr (sp_Symbol L name)) else None)"
  by (simp add: combined_locals_def map_of_dict_merge map_of_rev_distinct
      distinct_math_functions map_add_def map_of_symbols split: option.splits)

subsection \<open>The handlers\<close>

lemma symbolic_body_success: "symbolic_body L formula variables vals = Inr r \<Longrightarrow> success r"
  by (auto simp: symbolic_body_def seq_def split: sum.splits)

lemma success_body:
  assumes "success (calculate_symbolic_data L formula variables vals)"
  shows "symbolic_body L formula variables vals = Inr (calculate_symbolic_data L formula variables vals)"
  using assms
  by (cases "symbolic_body L formula variables vals")
     (auto simp: calculate_symbolic_data_def split: if_splits)

lemma raised_ValueError:
  assumes "symbolic_body L formula variables vals = Inl (ValueError, msg)"
  shows "calculate_symbolic_data L formula variables vals =
           \<lparr>success = False, error = Some (''Evaluation error: '' @ msg),
            expression = formula, derivatives = [], numerical_value = 0,
            numerical_derivatives = []\<rparr>"
  using assms by (simp add: calculate_symbolic_data_def isinstance_def)

lemma raised_IndexError:
  assumes "symbolic_body L formula variables vals = Inl (IndexError, msg)"
  shows "calculate_symbolic_data L formula variables vals =
           \<lparr>success = False, error = Some (''Unexpected error: '' @ msg),
            expression = formula, derivatives = [], numerical_value = 0,
            numerical_derivatives = []\<rparr>"
  using assms by (simp add: calculate_symbolic_data_def isinstance_def)

text \<open>
  An exception of the parser reaches the handlers as it is: its class alone decides the
  category of the message.
\<close>

lemma parser_exception_category:
  assumes "preprocess_formula L formula variables (get_math_functions L) = Inl e"
  shows "error (calculate_symbolic_data L formula variables vals) =
           Some ((if isinstance e SympifyError then ''Invalid formula syntax: ''
                  else if isinstance e ValueError then ''Evaluation error: ''
                  else ''Unexpected error: '') @ snd e)"
  using assms by (simp add: calculate_symbolic_data_def symbolic_body_def seq_def)

subsection \<open>The loops\<close>

lemma derivatives_loop_keys:
  "derivatives_loop L expr vars d0 = Inr ds \<Longrightarrow> fst ` set ds = fst ` set d0 \<union> set vars"
  by (induction vars arbitrary: d0) (auto simp: dom_update split: sum.splits)

lemma derivatives_loop_distinct:
  "derivatives_loop L expr vars d0 = Inr ds \<Longrightarrow> distinct (map fst d0) \<Longrightarrow> distinct (map fst ds)"
  by (induction vars arbitrary: d0) (auto simp: distinct_update split: sum.splits)

lemma symbolic_body_derivatives:
  assumes "symbolic_body L formula variables vals = Inr r"
  shows "\<exists>expr. preprocess_formula L formula variables (get_math_functions L) = Inr expr
           \<and> derivatives_loop L expr variables [] = Inr (derivatives r)"
  using assms by (auto simp: symbolic_body_def seq_def split: sum.splits)

lemma value_subs_from_short:
  "i \<le> length vals \<Longrightarrow> length vals < i + length vars \<Longrightarrow>
     value_subs_from i vars vals d = Inl (IndexError, ''list index out of range'')"
  by (induction vars arbitrary: i d) auto

lemma value_subs_short:
  "length vals < length variables \<Longrightarrow>
     value_subs variables vals = Inl (IndexError, ''list index out of range'')"
  by (simp add: value_subs_def value_subs_from_short)

lemma numerical_derivatives_loop_append:
  "numerical_derivatives_loop L ds vs (pre @ rest) nd0 =
     (case numerical_derivatives_loop L ds vs pre nd0 of
        Inl e \<Rightarrow> Inl e
      | Inr nd \<Rightarrow> numerical_derivatives_loop L ds vs rest nd)"
  by (induction pre arbitrary: nd0) (auto split: sum.splits)

lemma numerical_derivatives_loop_other:
  "numerical_derivatives_loop L ds vs vars nd0 = Inr nd \<Longrightarrow> var \<notin> set vars \<Longrightarrow>
     map_of nd var = map_of nd0 var"
  by (induction vars arbitrary: nd0) (auto simp: update_conv' split: sum.splits)

lemma numerical_derivatives_loop_lookup:
  "numerical_derivatives_loop L ds vs vars nd0 = Inr nd \<Longrightarrow> var \<in> set vars \<Longrightarrow>
     \<exists>x. numerical_derivative L ds vs var = Inr x \<and> map_of nd var = Some x"
proof (induction vars arbitrary: nd0)
  case Nil
  then show ?case by simp
next
  case (Cons v vars)
  from Cons.prems(1) obtain x0 where
    x0: "numerical_derivative L ds vs v = Inr x0"
    and rest: "numerical_derivatives_loop L ds vs vars (AList.update v x0 nd0) = Inr nd"
    by (auto split: sum.splits)
  show ?case
  proof (cases "var \<in> set vars")
    case True
    from Cons.IH [OF rest True] show ?thesis .
  next
    case False
    with Cons.prems(2) have "var = v" by simp
    with numerical_derivatives_loop_other [OF rest False] x0 show ?thesis
      by (simp add: update_conv')
  qed
qed

lemma numerical_derivative_Inr:
  assumes "numerical_derivative L ds vs var = Inr x"
  shows "\<exists>s dv rp. map_of ds var = Some s \<and> derivative_value L s vs = Inr dv
           \<and> significant_imaginary L dv = Inr False
           \<and> sp_re L dv = Inr rp \<and> py_float L rp = Inr x"
  using assms
  by (auto simp: numerical_derivative_def seq_def split: option.splits sum.splits if_splits)

lemma symbolic_body_numerical:
  assumes "symbolic_body L formula variables vals = Inr r"
  shows "\<exists>vs. value_subs variables vals = Inr vs
           \<and> numerical_derivatives_loop L (derivatives r) vs variables [] = Inr (numerical_derivatives r)"
  using assms by (auto simp: symbolic_body_def seq_def split: sum.splits)

section \<open>The reference library at concrete formulas\<close>

lemmas body_defs =
  calculate_symbolic_data_def symbolic_body_def seq_def derivative_string_def
  value_subs_def numerical_value_of_def numerical_derivative_def derivative_value_def
  significant_imaginary_def isinstance_def generate_latex_data_def latex_body_def
  uncertainty_term_def py_sum_def

lemma sp_sel:
  "sp_Symbol sp = Sym" "sp_Integer sp = Integer" "sp_Rational sp = rational_ref"
  "sp_call sp = call_ref" "parse_expr sp = parse_expr_ref" "sp_sympify sp = sympify_ref"
  "sp_diff sp = diff_ref" "sp_im sp = im_ref" "sp_re sp = re_ref" "expr_subs sp = subs_ref"
  "expr_free_symbols sp = free_symbols_ref" "expr_evalf sp = evalf_ref"
  "py_float sp = float_ref" "py_str sp = str_ref" "py_abs sp = abs_ref" "py_gt sp = gt_ref"
  "py_add sp = (\<lambda>a b. Inr (mk_add a b))" "py_mul sp = (\<lambda>a b. Inr (mk_mul a b))"
  "py_pow sp = (\<lambda>a b. Inr (mk_pow a b))" "sp_latex sp = latex_ref"
  by (simp_all add: sp_def)

lemmas reference_defs =
  sp_sel parse_expr_ref_def parse_with_def tokenize_def flush_def is_digit_def is_letter_def
  digit_chars_def letters_def number_of_def digit_of_def resolve_def const_of_def
  call_ref_def juxtapose_def binding_def apply_op_def mk_add_def mk_mul_def mk_pow_def
  sympy_namespace_def sympify_ref_def diff_ref_def subs_ref_def free_symbols_ref_def
  evalf_ref_def float_ref_def im_ref_def re_ref_def abs_ref_def gt_ref_def of_complex_def
  str_ref_def latex_ref_def is_sum_def is_literal_def is_atom_def is_half_def parens_def
  latex_symbol_def plain_name_def sigma_def backslash_def outside_def syntax_error_def
  rational_ref_def digits.simps

lemmas lookup_defs =
  preprocess_formula_def sp_sel parse_expr_ref_def map_of_combined_locals

lemmas parse_defs =
  get_math_functions_def lambda1_def lambda2_def seq_def reference_defs

lemma parse_2x:
  "preprocess_formula sp ''2x'' [''x''] (get_math_functions sp) = Inr (Mul (Integer 2) (Sym ''x''))"
  by (simp only: lookup_defs) (simp add: parse_defs)

lemma parse_x_plus_y:
  "preprocess_formula sp ''x+y'' [''x''] (get_math_functions sp) = Inr (Add (Sym ''x'') (Sym ''y''))"
  by (simp only: lookup_defs) (simp add: parse_defs)

lemma parse_x_plus_y_both:
  "preprocess_formula sp ''x+y'' [''x'', ''y''] (get_math_functions sp) =
     Inr (Add (Sym ''x'') (Sym ''y''))"
  by (simp only: lookup_defs) (simp add: parse_defs)

lemma parse_Ix:
  "preprocess_formula sp ''I*x'' [''x''] (get_math_functions sp) =
     Inr (Mul ImaginaryUnit (Sym ''x''))"
  by (simp only: lookup_defs) (simp add: parse_defs)

lemma parse_Iw:
  "preprocess_formula sp ''I*w'' [''w''] (get_math_functions sp) =
     Inr (Mul ImaginaryUnit (Sym ''w''))"
  by (simp only: lookup_defs) (simp add: parse_defs)

lemma parse_Iw_k:
  "preprocess_formula sp ''I*w + k'' [''w''] (get_math_functions sp) =
     Inr (Add (Mul ImaginaryUnit (Sym ''w'')) (Sym ''k''))"
  by (simp only: lookup_defs) (simp add: parse_defs)

lemma parse_pi:
  "preprocess_formula sp ''pi'' [''pi''] (get_math_functions sp) = Inr Pi"
  by (simp only: lookup_defs) (simp add: parse_defs)

lemma parse_x:
  "preprocess_formula sp ''x'' [''x''] (get_math_functions sp) = Inr (Sym ''x'')"
  by (simp only: lookup_defs) (simp add: parse_defs)

lemma parse_unclosed:
  "preprocess_formula sp ''(x'' [''x''] (get_math_functions sp) =
     Inl (TokenError, ''EOF in multi-line statement'')"
  by (simp only: lookup_defs) (simp add: parse_defs)

lemma eval_2x:
  "calculate_symbolic_data sp ''2x'' [''x''] [3] =
     \<lparr>success = True, error = None, expression = ''2*x'', derivatives = [(''x'', ''2'')],
      numerical_value = 6, numerical_derivatives = [(''x'', 2)]\<rparr>"
  by (simp only: calculate_symbolic_data_def symbolic_body_def generate_latex_data_def latex_body_def parse_2x)
     (simp add: body_defs reference_defs)

lemma eval_x_plus_y:
  "calculate_symbolic_data sp ''x+y'' [''x''] [1] =
     \<lparr>success = False,
      error = Some ''Evaluation error: Expression could not be fully evaluated: missing variables?'',
      expression = ''x+y'', derivatives = [], numerical_value = 0,
      numerical_derivatives = []\<rparr>"
  by (simp only: calculate_symbolic_data_def symbolic_body_def generate_latex_data_def latex_body_def parse_x_plus_y)
     (simp add: body_defs reference_defs)

lemma eval_Ix:
  "calculate_symbolic_data sp ''I*x'' [''x''] [1] =
     \<lparr>success = False, error = Some ''Unexpected error: Cannot convert complex to float'',
      expression = ''I*x'', derivatives = [], numerical_value = 0,
      numerical_derivatives = []\<rparr>"
  by (simp only: calculate_symbolic_data_def symbolic_body_def generate_latex_data_def latex_body_def parse_Ix)
     (simp add: body_defs reference_defs)

lemma eval_Iw_k:
  "calculate_symbolic_data sp ''I*w + k'' [''w''] [1] =
     \<lparr>success = False,
      error = Some ''Evaluation error: Expression could not be fully evaluated: missing variables?'',
      expression = ''I*w + k'', derivatives = [], numerical_value = 0,
      numerical_derivatives = []\<rparr>"
  by (simp only: calculate_symbolic_data_def symbolic_body_def generate_latex_data_def latex_body_def parse_Iw_k)
     (simp add: body_defs reference_defs)

lemma eval_unclosed:
  "calculate_symbolic_data sp ''(x'' [''x''] [1] =
     \<lparr>success = False, error = Some ''Unexpected error: EOF in multi-line statement'',
      expression = ''(x'', derivatives = [], numerical_value = 0,
      numerical_derivatives = []\<rparr>"
  by (simp only: calculate_symbolic_data_def symbolic_body_def parse_unclosed)
     (simp add: body_defs)

lemma eval_latex:
  "generate_latex_data sp ''x+y'' [''x'', ''y''] =
     \<lparr>success = True, error = None,
      string = ''sqrt('' @ sigma @ ''_x**2 + '' @ sigma @ ''_y**2)'',
      latex = backslash @ ''sqrt{'' @ sigma @ ''_{x}^{2} + '' @ sigma @ ''_{y}^{2}}''\<rparr>"
  by (simp only: calculate_symbolic_data_def symbolic_body_def generate_latex_data_def latex_body_def parse_x_plus_y_both)
     (simp add: body_defs reference_defs)

lemma eval_Iw:
  "calculate_symbolic_data sp ''I*w'' [''w''] [0] =
     \<lparr>success = False,
      error = Some ''Evaluation error: Derivative with respect to w has a significant imaginary part.'',
      expression = ''I*w'', derivatives = [], numerical_value = 0,
      numerical_derivatives = []\<rparr>"
  by (simp only: calculate_symbolic_data_def symbolic_body_def parse_Iw)
     (simp add: body_defs reference_defs)

lemma eval_missing_values:
  "calculate_symbolic_data sp ''x'' [''x''] [] =
     \<lparr>success = False, error = Some ''Unexpected error: list index out of range'',
      expression = ''x'', derivatives = [], numerical_value = 0,
      numerical_derivatives = []\<rparr>"
  by (simp only: calculate_symbolic_data_def symbolic_body_def parse_x)
     (simp add: body_defs reference_defs)

section \<open>The claims\<close>

text \<open>
  C1 (as amended). When a declared variable name is also a name of the function table,
  the table's entry takes precedence: the merged dictionary handed to the parser binds a
  name to the table's object whenever the table has the name, and to the caller's Symbol
  only for a declared variable that the table does not name.
\<close>

theorem C1_function_table_takes_precedence:
  "map_of (combined_locals L variables (get_math_functions L)) name =
     (case map_of (get_math_functions L) name of
        Some ob \<Rightarrow> Some ob
      | None \<Rightarrow> if name \<in> set variables then Some (Expr (sp_Symbol L name)) else None)"
  by (rule map_of_combined_locals)

text \<open>
  C1 as stated fails: with the variable \<open>pi\<close> declared, the name \<open>pi\<close> is bound to
  the library's constant and not to the Symbol, the formula \<open>pi\<close> parses to the
  constant, and its derivative with respect to the variable is printed as 0, not 1.
\<close>

theorem C1_counterexample:
  "map_of (combined_locals sp [''pi''] (get_math_functions sp)) ''pi'' = Some (Attr Sp_pi)
   \<and> map_of (combined_locals sp [''pi''] (get_math_functions sp)) ''pi''
       \<noteq> Some (Expr (sp_Symbol sp ''pi''))
   \<and> preprocess_formula sp ''pi'' [''pi''] (get_math_functions sp) = Inr Pi
   \<and> derivatives_loop sp Pi [''pi''] [] = Inr [(''pi'', ''0'')]"
proof -
  have "map_of (combined_locals sp [''pi''] (get_math_functions sp)) ''pi'' = Some (Attr Sp_pi)"
    by (simp only: map_of_combined_locals) (simp add: get_math_functions_def)
  moreover have "derivatives_loop sp Pi [''pi''] [] = Inr [(''pi'', ''0'')]"
    by (simp add: body_defs reference_defs)
  ultimately show ?thesis
    by (simp add: parse_pi)
qed

text \<open>
  C2 (as amended). Whenever \<open>calculate_symbolic_data\<close> fails, the field
  \<open>expression\<close> is the formula as it was passed in, \<open>numerical_value\<close> is zero,
  \<open>derivatives\<close> and \<open>numerical_derivatives\<close> are empty, and an error message is
  present.
\<close>

theorem C2_failure_fields:
  assumes "\<not> success (calculate_symbolic_data L formula variables vals)"
  shows "expression (calculate_symbolic_data L formula variables vals) = formula
       \<and> derivatives (calculate_symbolic_data L formula variables vals) = []
       \<and> numerical_value (calculate_symbolic_data L formula variables vals) = 0
       \<and> numerical_derivatives (calculate_symbolic_data L formula variables vals) = []
       \<and> error (calculate_symbolic_data L formula variables vals) \<noteq> None"
proof (cases "symbolic_body L formula variables vals")
  case (Inl e)
  then show ?thesis by (simp add: calculate_symbolic_data_def)
next
  case (Inr r)
  with assms symbolic_body_success [OF Inr] show ?thesis
    by (simp add: calculate_symbolic_data_def)
qed

theorem C2_witness:
  "\<not> success (calculate_symbolic_data sp ''(x'' [''x''] [1])
   \<and> expression (calculate_symbolic_data sp ''(x'' [''x''] [1]) = ''(x''
   \<and> derivatives (calculate_symbolic_data sp ''(x'' [''x''] [1]) = []
   \<and> numerical_value (calculate_symbolic_data sp ''(x'' [''x''] [1]) = 0
   \<and> numerical_derivatives (calculate_symbolic_data sp ''(x'' [''x''] [1]) = []"
proof -
  have failed: "\<not> success (calculate_symbolic_data sp ''(x'' [''x''] [1])"
    by (simp add: eval_unclosed)
  from C2_failure_fields [OF failed] failed show ?thesis by blast
qed

text \<open>
  C2 as stated fails: the failing call on the formula \<open>x+y\<close> returns that formula
  in \<open>expression\<close>, not the empty string.
\<close>

theorem C2_counterexample:
  "\<not> success (calculate_symbolic_data sp ''x+y'' [''x''] [1])
   \<and> expression (calculate_symbolic_data sp ''x+y'' [''x''] [1]) = ''x+y''
   \<and> expression (calculate_symbolic_data sp ''x+y'' [''x''] [1]) \<noteq> []"
  by (simp add: eval_x_plus_y)

text \<open>
  C3 (the code at the failing input). The formula \<open>(x\<close> has a parenthesis that is
  never closed. The parser raises TokenError, which is neither SympifyError nor
  ValueError, so the call fails with a message of the catch-all category, not of the
  malformed-formula category.
\<close>

theorem C3_unclosed_parenthesis_is_unexpected:
  "\<not> success (calculate_symbolic_data sp ''(x'' [''x''] [1])
   \<and> map_option (take 18) (error (calculate_symbolic_data sp ''(x'' [''x''] [1]))
       = Some ''Unexpected error: ''
   \<and> map_option (take 24) (error (calculate_symbolic_data sp ''(x'' [''x''] [1]))
       \<noteq> Some ''Invalid formula syntax: ''"
  by (simp add: eval_unclosed)

text \<open>
  C4 (as amended). For a declared variable \<open>var\<close>: if parsing, the derivative loop,
  the substitution mapping and the numerical value of the expression itself succeed,
  every variable listed before \<open>var\<close> passes, and the derivative of \<open>var\<close>
  evaluated at the supplied values has an imaginary part whose absolute value exceeds
  1e-10, then the call fails with the evaluation error that names \<open>var\<close>. And
  whenever the call succeeds, every declared variable's imaginary part was within the
  tolerance and its reported numerical derivative is the float of the real part alone.
\<close>

theorem C4_imaginary_part_check:
  "(preprocess_formula L formula (pre @ var # post) (get_math_functions L) = Inr expr \<longrightarrow>
    derivatives_loop L expr (pre @ var # post) [] = Inr ds \<longrightarrow>
    value_subs (pre @ var # post) vals = Inr vs \<longrightarrow>
    numerical_value_of L expr vs = Inr number \<longrightarrow>
    numerical_derivatives_loop L ds vs pre [] = Inr nd \<longrightarrow>
    map_of ds var = Some s \<longrightarrow>
    derivative_value L s vs = Inr dv \<longrightarrow>
    significant_imaginary L dv = Inr True \<longrightarrow>
    calculate_symbolic_data L formula (pre @ var # post) vals =
      \<lparr>success = False,
       error = Some (''Evaluation error: Derivative with respect to '' @ var @
                     '' has a significant imaginary part.''),
       expression = formula, derivatives = [], numerical_value = 0,
       numerical_derivatives = []\<rparr>)
   \<and> (success (calculate_symbolic_data L formula variables vals) \<longrightarrow>
      v \<in> set variables \<longrightarrow>
      (\<exists>vs s dv rp x.
         value_subs variables vals = Inr vs
         \<and> map_of (derivatives (calculate_symbolic_data L formula variables vals)) v = Some s
         \<and> derivative_value L s vs = Inr dv
         \<and> significant_imaginary L dv = Inr False
         \<and> sp_re L dv = Inr rp \<and> py_float L rp = Inr x
         \<and> map_of (numerical_derivatives (calculate_symbolic_data L formula variables vals)) v
             = Some x))"
proof (intro conjI impI)
  assume parse: "preprocess_formula L formula (pre @ var # post) (get_math_functions L) = Inr expr"
    and loop1: "derivatives_loop L expr (pre @ var # post) [] = Inr ds"
    and subs: "value_subs (pre @ var # post) vals = Inr vs"
    and number: "numerical_value_of L expr vs = Inr number"
    and before: "numerical_derivatives_loop L ds vs pre [] = Inr nd"
    and s: "map_of ds var = Some s"
    and dv: "derivative_value L s vs = Inr dv"
    and exceeds: "significant_imaginary L dv = Inr True"
  let ?msg = "''Derivative with respect to '' @ var @ '' has a significant imaginary part.''"
  from s dv exceeds have "numerical_derivative L ds vs var = Inl (ValueError, ?msg)"
    by (simp add: numerical_derivative_def seq_def)
  with before have "numerical_derivatives_loop L ds vs (pre @ var # post) [] = Inl (ValueError, ?msg)"
    by (simp add: numerical_derivatives_loop_append)
  with parse loop1 subs number
  have "symbolic_body L formula (pre @ var # post) vals = Inl (ValueError, ?msg)"
    by (simp add: symbolic_body_def seq_def)
  from raised_ValueError [OF this]
  show "calculate_symbolic_data L formula (pre @ var # post) vals =
      \<lparr>success = False,
       error = Some (''Evaluation error: Derivative with respect to '' @ var @
                     '' has a significant imaginary part.''),
       expression = formula, derivatives = [], numerical_value = 0,
       numerical_derivatives = []\<rparr>"
    by simp
next
  let ?r = "calculate_symbolic_data L formula variables vals"
  assume ok: "success ?r" and v: "v \<in> set variables"
  from symbolic_body_numerical [OF success_body [OF ok]]
  obtain vs where vs: "value_subs variables vals = Inr vs"
    and loop2: "numerical_derivatives_loop L (derivatives ?r) vs variables []
                  = Inr (numerical_derivatives ?r)"
    by blast
  from numerical_derivatives_loop_lookup [OF loop2 v]
  obtain x where x: "numerical_derivative L (derivatives ?r) vs v = Inr x"
    and reported: "map_of (numerical_derivatives ?r) v = Some x"
    by blast
  from numerical_derivative_Inr [OF x] vs reported
  show "\<exists>vs s dv rp x.
         value_subs variables vals = Inr vs
         \<and> map_of (derivatives ?r) v = Some s
         \<and> derivative_value L s vs = Inr dv
         \<and> significant_imaginary L dv = Inr False
         \<and> sp_re L dv = Inr rp \<and> py_float L rp = Inr x
         \<and> map_of (numerical_derivatives ?r) v = Some x"
    by blast
qed

text \<open>
  The first half at the formula \<open>I*w\<close> with \<open>w = 0\<close>: the value is 0, the derivative
  is the imaginary unit, and the call fails naming \<open>w\<close>. The second half at the
  formula \<open>2x\<close> with \<open>x = 3\<close>, which succeeds.
\<close>

theorem C4_witness:
  "calculate_symbolic_data sp ''I*w'' [''w''] [0] =
     \<lparr>success = False,
      error = Some ''Evaluation error: Derivative with respect to w has a significant imaginary part.'',
      expression = ''I*w'', derivatives = [], numerical_value = 0,
      numerical_derivatives = []\<rparr>
   \<and> success (calculate_symbolic_data sp ''2x'' [''x''] [3])
   \<and> (\<exists>vs s dv rp x.
         value_subs [''x''] [3] = Inr vs
         \<and> map_of (derivatives (calculate_symbolic_data sp ''2x'' [''x''] [3])) ''x'' = Some s
         \<and> derivative_value sp s vs = Inr dv
         \<and> significant_imaginary sp dv = Inr False
         \<and> sp_re sp dv = Inr rp \<and> py_float sp rp = Inr x
         \<and> map_of (numerical_derivatives (calculate_symbolic_data sp ''2x'' [''x''] [3])) ''x''
             = Some x)"
proof -
  let ?e = "Mul ImaginaryUnit (Sym ''w'')"
  have parse: "preprocess_formula sp ''I*w'' ([] @ ''w'' # []) (get_math_functions sp) = Inr ?e"
    by (simp add: parse_Iw)
  have loop1: "derivatives_loop sp ?e ([] @ ''w'' # []) [] = Inr [(''w'', ''I'')]"
    by (simp add: body_defs reference_defs)
  have subs: "value_subs ([] @ ''w'' # []) [0] = Inr [(''w'', 0)]"
    by (simp add: value_subs_def)
  have number: "numerical_value_of sp ?e [(''w'', 0)] = Inr 0"
    by (simp add: body_defs reference_defs)
  have before: "numerical_derivatives_loop sp [(''w'', ''I'')] [(''w'', 0)] [] [] = Inr []"
    by simp
  have s: "map_of [(''w'', ''I'')] ''w'' = Some ''I''"
    by simp
  have dv: "derivative_value sp ''I'' [(''w'', 0)] = Inr (Mul (Float 1) ImaginaryUnit)"
    by (simp add: body_defs reference_defs)
  have exceeds: "significant_imaginary sp (Mul (Float 1) ImaginaryUnit) = Inr True"
    by (simp add: body_defs reference_defs)
  have first: "calculate_symbolic_data sp ''I*w'' ([] @ ''w'' # []) [0] =
     \<lparr>success = False,
      error = Some (''Evaluation error: Derivative with respect to '' @ ''w'' @
                    '' has a significant imaginary part.''),
      expression = ''I*w'', derivatives = [], numerical_value = 0,
      numerical_derivatives = []\<rparr>"
    using C4_imaginary_part_check
      [where L = sp and formula = "''I*w''" and pre = "[]" and var = "''w''" and post = "[]"
         and expr = ?e and ds = "[(''w'', ''I'')]" and vals = "[0]" and vs = "[(''w'', 0)]"
         and number = 0 and nd = "[]" and s = "''I''" and dv = "Mul (Float 1) ImaginaryUnit"]
      parse loop1 subs number before s dv exceeds
    by blast
  have ok: "success (calculate_symbolic_data sp ''2x'' [''x''] [3])"
    by (simp add: eval_2x)
  have member: "''x'' \<in> set [''x'']"
    by simp
  have second: "\<exists>vs s dv rp x.
         value_subs [''x''] [3] = Inr vs
         \<and> map_of (derivatives (calculate_symbolic_data sp ''2x'' [''x''] [3])) ''x'' = Some s
         \<and> derivative_value sp s vs = Inr dv
         \<and> significant_imaginary sp dv = Inr False
         \<and> sp_re sp dv = Inr rp \<and> py_float sp rp = Inr x
         \<and> map_of (numerical_derivatives (calculate_symbolic_data sp ''2x'' [''x''] [3])) ''x''
             = Some x"
    using C4_imaginary_part_check
      [where L = sp and formula = "''2x''" and variables = "[''x'']" and vals = "[3]"
         and v = "''x''"]
      ok member
    by blast
  from first ok second show ?thesis by simp
qed

text \<open>
  C4 as stated fails: for the formula \<open>I*w + k\<close> with \<open>w\<close> declared, the derivative
  with respect to \<open>w\<close> is the imaginary unit, whose imaginary part 1 exceeds the
  tolerance, but the call has already failed on the free symbol \<open>k\<close>, and its message
  does not name \<open>w\<close>.
\<close>

theorem C4_counterexample:
  "preprocess_formula sp ''I*w + k'' [''w''] (get_math_functions sp)
     = Inr (Add (Mul ImaginaryUnit (Sym ''w'')) (Sym ''k''))
   \<and> derivatives_loop sp (Add (Mul ImaginaryUnit (Sym ''w'')) (Sym ''k'')) [''w''] []
       = Inr [(''w'', ''I'')]
   \<and> derivative_value sp ''I'' [(''w'', 1)] = Inr (Mul (Float 1) ImaginaryUnit)
   \<and> significant_imaginary sp (Mul (Float 1) ImaginaryUnit) = Inr True
   \<and> error (calculate_symbolic_data sp ''I*w + k'' [''w''] [1])
       = Some ''Evaluation error: Expression could not be fully evaluated: missing variables?''
   \<and> error (calculate_symbolic_data sp ''I*w + k'' [''w''] [1])
       \<noteq> Some ''Evaluation error: Derivative with respect to w has a significant imaginary part.''"
proof -
  have "derivatives_loop sp (Add (Mul ImaginaryUnit (Sym ''w'')) (Sym ''k'')) [''w''] []
          = Inr [(''w'', ''I'')]"
    by (simp add: body_defs reference_defs)
  moreover have "derivative_value sp ''I'' [(''w'', 1)] = Inr (Mul (Float 1) ImaginaryUnit)"
    by (simp add: body_defs reference_defs)
  moreover have "significant_imaginary sp (Mul (Float 1) ImaginaryUnit) = Inr True"
    by (simp add: body_defs reference_defs)
  ultimately show ?thesis
    by (simp add: parse_Iw_k eval_Iw_k)
qed

text \<open>
  C5. When the formula parses, the derivatives are computed and printed, the
  substitution mapping is built, and the substituted expression still has a free
  symbol, the call fails with the evaluation error for missing variables.
\<close>

theorem C5_missing_variable:
  assumes "preprocess_formula L formula variables (get_math_functions L) = Inr expr"
    and "derivatives_loop L expr variables [] = Inr ds"
    and "value_subs variables vals = Inr vs"
    and "expr_subs L expr vs = Inr expr_value"
    and "expr_free_symbols L expr_value \<noteq> {}"
  shows "calculate_symbolic_data L formula variables vals =
           \<lparr>success = False,
            error = Some ''Evaluation error: Expression could not be fully evaluated: missing variables?'',
            expression = formula, derivatives = [], numerical_value = 0,
            numerical_derivatives = []\<rparr>"
proof -
  from assms have "symbolic_body L formula variables vals =
      Inl (ValueError, ''Expression could not be fully evaluated: missing variables?'')"
    by (simp add: symbolic_body_def numerical_value_of_def seq_def)
  from raised_ValueError [OF this] show ?thesis by simp
qed

text \<open>The call of the claim: the formula \<open>x+y\<close> with only \<open>x\<close> declared and bound to 1.\<close>

theorem C5_witness:
  "expr_free_symbols sp (Add (Float 1) (Sym ''y'')) = {Sym ''y''}
   \<and> calculate_symbolic_data sp ''x+y'' [''x''] [1] =
       \<lparr>success = False,
        error = Some ''Evaluation error: Expression could not be fully evaluated: missing variables?'',
        expression = ''x+y'', derivatives = [], numerical_value = 0,
        numerical_derivatives = []\<rparr>"
proof -
  let ?e = "Add (Sym ''x'') (Sym ''y'')"
  have loop1: "derivatives_loop sp ?e [''x''] [] = Inr [(''x'', ''1'')]"
    by (simp add: body_defs reference_defs)
  have subs: "value_subs [''x''] [1] = Inr [(''x'', 1)]"
    by (simp add: value_subs_def)
  have substituted: "expr_subs sp ?e [(''x'', 1)] = Inr (Add (Float 1) (Sym ''y''))"
    by (simp add: reference_defs)
  have free: "expr_free_symbols sp (Add (Float 1) (Sym ''y'')) = {Sym ''y''}"
    by (simp add: reference_defs)
  then have nonempty: "expr_free_symbols sp (Add (Float 1) (Sym ''y'')) \<noteq> {}"
    by simp
  from C5_missing_variable [OF parse_x_plus_y loop1 subs substituted nonempty] free
  show ?thesis by simp
qed

text \<open>
  C6 (as amended). Whenever \<open>calculate_symbolic_data\<close> succeeds, the keys of
  \<open>derivatives\<close> are exactly the declared variables, each once.
\<close>

theorem C6_derivative_keys:
  assumes "success (calculate_symbolic_data L formula variables vals)"
  shows "fst ` set (derivatives (calculate_symbolic_data L formula variables vals)) = set variables
       \<and> distinct (map fst (derivatives (calculate_symbolic_data L formula variables vals)))"
proof -
  from symbolic_body_derivatives [OF success_body [OF assms]]
  obtain expr where
    "derivatives_loop L expr variables [] =
       Inr (derivatives (calculate_symbolic_data L formula variables vals))"
    by blast
  from derivatives_loop_keys [OF this] derivatives_loop_distinct [OF this]
  show ?thesis by simp
qed

theorem C6_witness:
  "success (calculate_symbolic_data sp ''2x'' [''x''] [3])
   \<and> fst ` set (derivatives (calculate_symbolic_data sp ''2x'' [''x''] [3])) = set [''x'']
   \<and> distinct (map fst (derivatives (calculate_symbolic_data sp ''2x'' [''x''] [3])))"
proof -
  have ok: "success (calculate_symbolic_data sp ''2x'' [''x''] [3])"
    by (simp add: eval_2x)
  from C6_derivative_keys [OF ok] ok show ?thesis by blast
qed

text \<open>
  C6 as stated fails: the formula \<open>I*x\<close> parses over the declared variable \<open>x\<close>,
  its value at \<open>x = 1\<close> is not real, the call fails, and the returned
  \<open>derivatives\<close> is empty although one variable is declared.
\<close>

theorem C6_counterexample:
  "preprocess_formula sp ''I*x'' [''x''] (get_math_functions sp)
     = Inr (Mul ImaginaryUnit (Sym ''x''))
   \<and> derivatives (calculate_symbolic_data sp ''I*x'' [''x''] [1]) = []
   \<and> fst ` set (derivatives (calculate_symbolic_data sp ''I*x'' [''x''] [1])) \<noteq> set [''x'']"
  by (simp add: parse_Ix eval_Ix)

text \<open>
  C7. For any library, any formula and two variables \<open>a\<close> and \<open>b\<close>,
  \<open>generate_latex_data\<close> builds its answer in these steps and no others: the
  formula is parsed; for each variable its partial derivative is taken, multiplied by
  the uncertainty symbol named sigma, underscore, variable, and the product is squared;
  the two squares are added to 0 in the order of the variables; the square root of the
  sum is taken; and the typeset and the printed form of that root are returned with
  \<open>success\<close> set. On the reference library, for the formula \<open>x+y\<close> over \<open>x\<close>
  and \<open>y\<close>, both partial derivatives are 1, the call succeeds, its string is the
  square root of the sum of the squares of the two uncertainty symbols, and its typeset
  form is not empty.
\<close>

theorem C7_uncertainty_of_sum:
  "(preprocess_formula L formula [a, b] (get_math_functions L) = Inr expr \<longrightarrow>
    sp_diff L expr (sp_Symbol L a) = Inr da \<longrightarrow>
    py_mul L da (sp_Symbol L (sigma @ ''_'' @ a)) = Inr pa \<longrightarrow>
    py_pow L pa (sp_Integer L 2) = Inr ta \<longrightarrow>
    sp_diff L expr (sp_Symbol L b) = Inr db \<longrightarrow>
    py_mul L db (sp_Symbol L (sigma @ ''_'' @ b)) = Inr pb \<longrightarrow>
    py_pow L pb (sp_Integer L 2) = Inr tb \<longrightarrow>
    py_add L (sp_Integer L 0) ta = Inr partial_sum \<longrightarrow>
    py_add L partial_sum tb = Inr sum_of_squares \<longrightarrow>
    sp_call L Sp_sqrt [sum_of_squares] = Inr radical \<longrightarrow>
    sp_latex L radical = Inr typeset \<longrightarrow>
    py_str L radical = Inr printed \<longrightarrow>
    generate_latex_data L formula [a, b] =
      \<lparr>success = True, error = None, string = printed, latex = typeset\<rparr>)
   \<and> preprocess_formula sp ''x+y'' [''x'', ''y''] (get_math_functions sp)
       = Inr (Add (Sym ''x'') (Sym ''y''))
   \<and> sp_diff sp (Add (Sym ''x'') (Sym ''y'')) (sp_Symbol sp ''x'') = Inr (Integer 1)
   \<and> sp_diff sp (Add (Sym ''x'') (Sym ''y'')) (sp_Symbol sp ''y'') = Inr (Integer 1)
   \<and> success (generate_latex_data sp ''x+y'' [''x'', ''y''])
   \<and> string (generate_latex_data sp ''x+y'' [''x'', ''y''])
       = ''sqrt('' @ sigma @ ''_x**2 + '' @ sigma @ ''_y**2)''
   \<and> latex (generate_latex_data sp ''x+y'' [''x'', ''y'']) \<noteq> []"
proof -
  have steps:
    "preprocess_formula L formula [a, b] (get_math_functions L) = Inr expr \<longrightarrow>
     sp_diff L expr (sp_Symbol L a) = Inr da \<longrightarrow>
     py_mul L da (sp_Symbol L (sigma @ ''_'' @ a)) = Inr pa \<longrightarrow>
     py_pow L pa (sp_Integer L 2) = Inr ta \<longrightarrow>
     sp_diff L expr (sp_Symbol L b) = Inr db \<longrightarrow>
     py_mul L db (sp_Symbol L (sigma @ ''_'' @ b)) = Inr pb \<longrightarrow>
     py_pow L pb (sp_Integer L 2) = Inr tb \<longrightarrow>
     py_add L (sp_Integer L 0) ta = Inr partial_sum \<longrightarrow>
     py_add L partial_sum tb = Inr sum_of_squares \<longrightarrow>
     sp_call L Sp_sqrt [sum_of_squares] = Inr radical \<longrightarrow>
     sp_latex L radical = Inr typeset \<longrightarrow>
     py_str L radical = Inr printed \<longrightarrow>
     generate_latex_data L formula [a, b] =
       \<lparr>success = True, error = None, string = printed, latex = typeset\<rparr>"
  proof (intro impI)
    assume parse: "preprocess_formula L formula [a, b] (get_math_functions L) = Inr expr"
      and da: "sp_diff L expr (sp_Symbol L a) = Inr da"
      and pa: "py_mul L da (sp_Symbol L (sigma @ ''_'' @ a)) = Inr pa"
      and ta: "py_pow L pa (sp_Integer L 2) = Inr ta"
      and db: "sp_diff L expr (sp_Symbol L b) = Inr db"
      and pb: "py_mul L db (sp_Symbol L (sigma @ ''_'' @ b)) = Inr pb"
      and tb: "py_pow L pb (sp_Integer L 2) = Inr tb"
      and s1: "py_add L (sp_Integer L 0) ta = Inr partial_sum"
      and s2: "py_add L partial_sum tb = Inr sum_of_squares"
      and radical: "sp_call L Sp_sqrt [sum_of_squares] = Inr radical"
      and typeset: "sp_latex L radical = Inr typeset"
      and printed: "py_str L radical = Inr printed"
    from da pa ta have term_a: "uncertainty_term L expr a = Inr ta"
      by (simp add: uncertainty_term_def seq_def)
    from db pb tb have term_b: "uncertainty_term L expr b = Inr tb"
      by (simp add: uncertainty_term_def seq_def)
    from term_a term_b have terms: "uncertainty_loop L expr [a, b] [] = Inr [ta, tb]"
      by simp
    from s1 s2 have total: "py_sum L [ta, tb] = Inr sum_of_squares"
      by (simp add: py_sum_def)
    from parse terms total radical typeset printed
    have "latex_body L formula [a, b] =
            Inr \<lparr>success = True, error = None, string = printed, latex = typeset\<rparr>"
      by (simp add: latex_body_def seq_def)
    then show "generate_latex_data L formula [a, b] =
       \<lparr>success = True, error = None, string = printed, latex = typeset\<rparr>"
      by (simp add: generate_latex_data_def)
  qed
  have dx: "sp_diff sp (Add (Sym ''x'') (Sym ''y'')) (sp_Symbol sp ''x'') = Inr (Integer 1)"
    by (simp add: reference_defs)
  have dy: "sp_diff sp (Add (Sym ''x'') (Sym ''y'')) (sp_Symbol sp ''y'') = Inr (Integer 1)"
    by (simp add: reference_defs)
  have result: "success (generate_latex_data sp ''x+y'' [''x'', ''y''])
     \<and> string (generate_latex_data sp ''x+y'' [''x'', ''y''])
         = ''sqrt('' @ sigma @ ''_x**2 + '' @ sigma @ ''_y**2)''
     \<and> latex (generate_latex_data sp ''x+y'' [''x'', ''y'']) \<noteq> []"
    by (simp add: eval_latex backslash_def)
  from steps parse_x_plus_y_both dx dy result show ?thesis
    by blast
qed

text \<open>
  The steps on the reference library at the formula \<open>x+y\<close>: each derivative is 1,
  each product is the uncertainty symbol itself, and the answer is the printed and the
  typeset form of the root of the sum of their squares.
\<close>

theorem C7_witness:
  "sp_diff sp (Add (Sym ''x'') (Sym ''y'')) (sp_Symbol sp ''x'') = Inr (Integer 1)
   \<and> py_mul sp (Integer 1) (sp_Symbol sp (sigma @ ''_'' @ ''x''))
       = Inr (Sym (sigma @ ''_'' @ ''x''))
   \<and> sp_diff sp (Add (Sym ''x'') (Sym ''y'')) (sp_Symbol sp ''y'') = Inr (Integer 1)
   \<and> py_mul sp (Integer 1) (sp_Symbol sp (sigma @ ''_'' @ ''y''))
       = Inr (Sym (sigma @ ''_'' @ ''y''))
   \<and> generate_latex_data sp ''x+y'' [''x'', ''y''] =
       \<lparr>success = True, error = None,
        string = ''sqrt('' @ sigma @ ''_x**2 + '' @ sigma @ ''_y**2)'',
        latex = backslash @ ''sqrt{'' @ sigma @ ''_{x}^{2} + '' @ sigma @ ''_{y}^{2}}''\<rparr>"
proof -
  let ?e = "Add (Sym ''x'') (Sym ''y'')"
  let ?sx = "Sym (sigma @ ''_'' @ ''x'')"
  let ?sy = "Sym (sigma @ ''_'' @ ''y'')"
  let ?tx = "Pow ?sx (Integer 2)"
  let ?ty = "Pow ?sy (Integer 2)"
  let ?root = "Pow (Add ?tx ?ty) (Rational 1 2)"
  have dx: "sp_diff sp ?e (sp_Symbol sp ''x'') = Inr (Integer 1)"
    by (simp add: reference_defs)
  have px: "py_mul sp (Integer 1) (sp_Symbol sp (sigma @ ''_'' @ ''x'')) = Inr ?sx"
    by (simp add: reference_defs)
  have tx: "py_pow sp ?sx (sp_Integer sp 2) = Inr ?tx"
    by (simp add: reference_defs)
  have dy: "sp_diff sp ?e (sp_Symbol sp ''y'') = Inr (Integer 1)"
    by (simp add: reference_defs)
  have py: "py_mul sp (Integer 1) (sp_Symbol sp (sigma @ ''_'' @ ''y'')) = Inr ?sy"
    by (simp add: reference_defs)
  have ty: "py_pow sp ?sy (sp_Integer sp 2) = Inr ?ty"
    by (simp add: reference_defs)
  have s1: "py_add sp (sp_Integer sp 0) ?tx = Inr ?tx"
    by (simp add: reference_defs)
  have s2: "py_add sp ?tx ?ty = Inr (Add ?tx ?ty)"
    by (simp add: reference_defs)
  have root: "sp_call sp Sp_sqrt [Add ?tx ?ty] = Inr ?root"
    by (simp add: reference_defs)
  have typeset: "sp_latex sp ?root =
      Inr (backslash @ ''sqrt{'' @ sigma @ ''_{x}^{2} + '' @ sigma @ ''_{y}^{2}}'')"
    by (simp add: reference_defs)
  have printed: "py_str sp ?root = Inr (''sqrt('' @ sigma @ ''_x**2 + '' @ sigma @ ''_y**2)'')"
    by (simp add: reference_defs)
  have "generate_latex_data sp ''x+y'' [''x'', ''y''] =
       \<lparr>success = True, error = None,
        string = ''sqrt('' @ sigma @ ''_x**2 + '' @ sigma @ ''_y**2)'',
        latex = backslash @ ''sqrt{'' @ sigma @ ''_{x}^{2} + '' @ sigma @ ''_{y}^{2}}''\<rparr>"
    by (rule C7_uncertainty_of_sum [THEN conjunct1, rule_format,
          OF parse_x_plus_y_both dx px tx dy py ty s1 s2 root typeset printed])
  with dx px dy py show ?thesis by blast
qed

text \<open>
  C8. The formula \<open>2x\<close> is read as the product of 2 and \<open>x\<close>: with \<open>x = 3\<close> the
  call succeeds and the numerical value is 6.
\<close>

theorem C8_implicit_multiplication:
  "preprocess_formula sp ''2x'' [''x''] (get_math_functions sp) = Inr (Mul (Integer 2) (Sym ''x''))
   \<and> success (calculate_symbolic_data sp ''2x'' [''x''] [3])
   \<and> numerical_value (calculate_symbolic_data sp ''2x'' [''x''] [3]) = 6"
  by (simp add: parse_2x eval_2x)

text \<open>
  C9. The function table binds \<open>sen\<close> and \<open>sin\<close> to the same operator, so, with the
  reference parser and whatever the rest of the library does, the calls on
  \<open>sen(x)\<close> and on \<open>sin(x)\<close> agree, for every value \<open>v\<close>, in their numerical
  value, their numerical derivatives, their derivatives and their success.
\<close>

theorem C9_alias_sen_sin:
  "map_of (get_math_functions L) ''sen'' = map_of (get_math_functions L) ''sin''
   \<and> numerical_value (calculate_symbolic_data (L\<lparr>parse_expr := parse_expr_ref\<rparr>) ''sen(x)'' [''x''] [v])
     = numerical_value (calculate_symbolic_data (L\<lparr>parse_expr := parse_expr_ref\<rparr>) ''sin(x)'' [''x''] [v])
   \<and> numerical_derivatives (calculate_symbolic_data (L\<lparr>parse_expr := parse_expr_ref\<rparr>) ''sen(x)'' [''x''] [v])
     = numerical_derivatives (calculate_symbolic_data (L\<lparr>parse_expr := parse_expr_ref\<rparr>) ''sin(x)'' [''x''] [v])
   \<and> derivatives (calculate_symbolic_data (L\<lparr>parse_expr := parse_expr_ref\<rparr>) ''sen(x)'' [''x''] [v])
     = derivatives (calculate_symbolic_data (L\<lparr>parse_expr := parse_expr_ref\<rparr>) ''sin(x)'' [''x''] [v])
   \<and> success (calculate_symbolic_data (L\<lparr>parse_expr := parse_expr_ref\<rparr>) ''sen(x)'' [''x''] [v])
     = success (calculate_symbolic_data (L\<lparr>parse_expr := parse_expr_ref\<rparr>) ''sin(x)'' [''x''] [v])"
proof -
  let ?L = "L\<lparr>parse_expr := parse_expr_ref\<rparr>"
  have table: "map_of (get_math_functions L) ''sen'' = map_of (get_math_functions L) ''sin''"
    by (simp add: get_math_functions_def)
  have "parse_expr_ref ''sen(x)'' (combined_locals ?L [''x''] (get_math_functions ?L))
      = parse_expr_ref ''sin(x)'' (combined_locals ?L [''x''] (get_math_functions ?L))"
    by (simp only: parse_expr_ref_def map_of_combined_locals)
       (simp add: get_math_functions_def parse_with_def tokenize_def flush_def is_digit_def
          is_letter_def digit_chars_def letters_def resolve_def const_of_def seq_def
          sympy_namespace_def)
  then have parse: "preprocess_formula ?L ''sen(x)'' [''x''] (get_math_functions ?L)
             = preprocess_formula ?L ''sin(x)'' [''x''] (get_math_functions ?L)"
    by (simp add: preprocess_formula_def)
  have body: "symbolic_body ?L ''sen(x)'' [''x''] [v] = symbolic_body ?L ''sin(x)'' [''x''] [v]"
    by (simp add: symbolic_body_def parse)
  have "numerical_value (calculate_symbolic_data ?L ''sen(x)'' [''x''] [v])
      = numerical_value (calculate_symbolic_data ?L ''sin(x)'' [''x''] [v])
   \<and> numerical_derivatives (calculate_symbolic_data ?L ''sen(x)'' [''x''] [v])
      = numerical_derivatives (calculate_symbolic_data ?L ''sin(x)'' [''x''] [v])
   \<and> derivatives (calculate_symbolic_data ?L ''sen(x)'' [''x''] [v])
      = derivatives (calculate_symbolic_data ?L ''sin(x)'' [''x''] [v])
   \<and> success (calculate_symbolic_data ?L ''sen(x)'' [''x''] [v])
      = success (calculate_symbolic_data ?L ''sin(x)'' [''x''] [v])"
    by (cases "symbolic_body ?L ''sin(x)'' [''x''] [v]")
       (simp_all add: calculate_symbolic_data_def body)
  with table show ?thesis by blast
qed

text \<open>
  C10. When fewer values than variables are supplied, the call never succeeds; and when
  the formula parses and its derivatives are computed and printed, the failure is the
  IndexError of the substitution mapping, reported in the catch-all category.
\<close>

theorem C10_too_few_values:
  assumes "length vals < length variables"
  shows "\<not> success (calculate_symbolic_data L formula variables vals)
       \<and> (preprocess_formula L formula variables (get_math_functions L) = Inr expr \<longrightarrow>
          derivatives_loop L expr variables [] = Inr ds \<longrightarrow>
          calculate_symbolic_data L formula variables vals =
            \<lparr>success = False, error = Some ''Unexpected error: list index out of range'',
             expression = formula, derivatives = [], numerical_value = 0,
             numerical_derivatives = []\<rparr>)"
proof (intro conjI impI)
  show "\<not> success (calculate_symbolic_data L formula variables vals)"
  proof
    assume "success (calculate_symbolic_data L formula variables vals)"
    from success_body [OF this] value_subs_short [OF assms] show False
      by (auto simp: symbolic_body_def seq_def split: sum.splits)
  qed
next
  assume "preprocess_formula L formula variables (get_math_functions L) = Inr expr"
    and "derivatives_loop L expr variables [] = Inr ds"
  with value_subs_short [OF assms]
  have "symbolic_body L formula variables vals = Inl (IndexError, ''list index out of range'')"
    by (simp add: symbolic_body_def seq_def)
  from raised_IndexError [OF this]
  show "calculate_symbolic_data L formula variables vals =
            \<lparr>success = False, error = Some ''Unexpected error: list index out of range'',
             expression = formula, derivatives = [], numerical_value = 0,
             numerical_derivatives = []\<rparr>"
    by simp
qed

theorem C10_witness:
  "length ([] :: real list) < length [''x'']
   \<and> \<not> success (calculate_symbolic_data sp ''x'' [''x''] [])
   \<and> calculate_symbolic_data sp ''x'' [''x''] [] =
       \<lparr>success = False, error = Some ''Unexpected error: list index out of range'',
        expression = ''x'', derivatives = [], numerical_value = 0,
        numerical_derivatives = []\<rparr>"
proof -
  have short: "length ([] :: real list) < length [''x'']"
    by simp
  have loop1: "derivatives_loop sp (Sym ''x'') [''x''] [] = Inr [(''x'', ''1'')]"
    by (simp add: body_defs reference_defs)
  from C10_too_few_values
    [OF short, where L = sp and formula = "''x''" and expr = "Sym ''x''"
       and ds = "[(''x'', ''1'')]"]
    parse_x loop1 short
  show ?thesis by blast
qed

end
